theory Spec2Isabelle
  imports Complex_Main "HOL-Library.Sublist"
begin

section \<open>Conventions of the embedding\<close>

text \<open>
  The Python sources \<^verbatim>\<open>mathutil.py\<close>, \<^verbatim>\<open>model.py\<close> and \<^verbatim>\<open>interaction.py\<close> are
  embedded function by function.  Python numbers (ints and floats mixed freely by the
  source) are the type \<open>real\<close>: arithmetic is exact, there is no rounding, no infinity
  and no NaN.  What the source computes in doubles agrees with the model up to rounding
  only; a statement whose truth turns on rounding is not made here.  Every exception
  the source can raise on finite numbers is a value of \<open>error\<close>, and a function that can
  raise returns \<open>error + 'a\<close> with \<open>Inl\<close> the exception.  Of the arithmetic of the
  source only \<^verbatim>\<open>/\<close> and \<^verbatim>\<open>**\<close> raise: \<^verbatim>\<open>/\<close> on a zero divisor, \<^verbatim>\<open>**\<close> when the
  power is too large for a double (\<^verbatim>\<open>*\<close>, \<^verbatim>\<open>+\<close> and \<^verbatim>\<open>-\<close> overflow silently to an
  infinity).  The sentinel \<^verbatim>\<open>None\<close> is \<open>None\<close> of an option type.

  Names are those of the source, less a leading underscore.  Where a name of the source
  is a constant of HOL it carries a suffix or is shortened: the inner function \<^verbatim>\<open>norm\<close>
  is \<open>norm_rect\<close>, the attribute \<^verbatim>\<open>size\<close> is \<open>size_part\<close>, the local \<^verbatim>\<open>inf\<close> is
  \<open>infl\<close>; the parameters \<^verbatim>\<open>origin\<close> and \<^verbatim>\<open>direction\<close> of the ray functions are \<open>org\<close>
  and \<open>dir\<close>, since \<open>origin\<close> is a field of a box part; the constructor of a class
  \<^verbatim>\<open>C\<close> is \<open>C_init\<close>.
\<close>

datatype error = ZeroDivisionError | IndexError | KeyError | OverflowError

text \<open>
  \<^verbatim>\<open>x ** 2\<close> on a float.  The doubles end at \<open>2 ^ 1024 - 2 ^ 971\<close>; a square of
  \<open>2 ^ 1024 - 2 ^ 970\<close> or more rounds to infinity, and Python then raises
  \<^verbatim>\<open>OverflowError\<close>.
\<close>

definition DBL_OVERFLOW :: real where
  "DBL_OVERFLOW = 2 ^ 1024 - 2 ^ 970"

definition float_square :: "real \<Rightarrow> error + real" where
  "float_square x = (if DBL_OVERFLOW \<le> x ^ 2 then Inl OverflowError else Inr (x ^ 2))"

definition bind_err :: "error + 'a \<Rightarrow> ('a \<Rightarrow> error + 'b) \<Rightarrow> error + 'b" where
  "bind_err r f = (case r of Inl e \<Rightarrow> Inl e | Inr x \<Rightarrow> f x)"

type_synonym vec3 = "real \<times> real \<times> real"
type_synonym vec4 = "real \<times> real \<times> real \<times> real"
type_synonym uv = "real \<times> real"
type_synonym rect = "real \<times> real \<times> real \<times> real"
type_synonym quad = "string \<times> vec3 list \<times> uv list"

section \<open>model.py: box unwrap and box parts\<close>

definition TEX_W :: int where
  "TEX_W = 64"

definition TEX_H :: int where
  "TEX_H = 64"

text \<open>The inner function \<^verbatim>\<open>norm\<close> of \<^verbatim>\<open>_box_uvs\<close>; Python's \<^verbatim>\<open>/\<close> raises on a zero divisor.\<close>

definition norm_rect :: "real \<Rightarrow> real \<Rightarrow> real \<Rightarrow> real \<Rightarrow> real \<Rightarrow> real \<Rightarrow> error + rect" where
  "norm_rect tex_w tex_h px_u px_v px_w px_h =
     (if tex_w = 0 then Inl ZeroDivisionError
      else if tex_h = 0 then Inl ZeroDivisionError
      else Inr (px_u / tex_w, px_v / tex_h, (px_u + px_w) / tex_w, (px_v + px_h) / tex_h))"

text \<open>\<^verbatim>\<open>_box_uvs\<close>: the dict literal, its six entries evaluated in the order written.\<close>

definition box_uvs ::
  "real \<Rightarrow> real \<Rightarrow> real \<Rightarrow> real \<Rightarrow> real \<Rightarrow> real \<Rightarrow> real \<Rightarrow> error + (string \<times> rect) list" where
  "box_uvs u0 v0 w h d tex_w tex_h =
     bind_err (norm_rect tex_w tex_h u0 (v0 + d) d h) (\<lambda>r_right.
     bind_err (norm_rect tex_w tex_h (u0 + d) (v0 + d) w h) (\<lambda>r_front.
     bind_err (norm_rect tex_w tex_h (u0 + d + w) (v0 + d) d h) (\<lambda>r_left.
     bind_err (norm_rect tex_w tex_h (u0 + d + w + d) (v0 + d) w h) (\<lambda>r_back.
     bind_err (norm_rect tex_w tex_h (u0 + d) v0 w d) (\<lambda>r_top.
     bind_err (norm_rect tex_w tex_h (u0 + d + w) v0 w d) (\<lambda>r_bottom.
       Inr [(''right'', r_right), (''front'', r_front), (''left'', r_left),
            (''back'', r_back), (''top'', r_top), (''bottom'', r_bottom)]))))))"

text \<open>Subscripting a dict: \<^verbatim>\<open>d[k]\<close> raises \<^verbatim>\<open>KeyError\<close> on a missing key.\<close>

definition dict_get :: "(string \<times> 'v) list \<Rightarrow> string \<Rightarrow> error + 'v" where
  "dict_get d k = (case map_of d k of None \<Rightarrow> Inl KeyError | Some v \<Rightarrow> Inr v)"

record BoxPart =
  name :: string
  origin :: vec3
  size_part :: vec3
  uv_origin :: uv
  inflate :: real
  uvs :: "(string \<times> rect) list"
  pivot :: vec3
  rotation :: vec3

text \<open>
  \<^verbatim>\<open>BoxPart.__init__\<close>.  The keyword arguments \<^verbatim>\<open>pivot\<close> and \<^verbatim>\<open>rotation\<close> default to
  \<^verbatim>\<open>None\<close>; a 3-tuple is always truthy, so \<^verbatim>\<open>pivot or X\<close> is \<open>X\<close> exactly for \<^verbatim>\<open>None\<close>.
\<close>

definition BoxPart_init ::
  "string \<Rightarrow> vec3 \<Rightarrow> vec3 \<Rightarrow> uv \<Rightarrow> real \<Rightarrow> vec3 option \<Rightarrow> vec3 option \<Rightarrow> error + BoxPart" where
  "BoxPart_init nm org sz uvo infl pv rot =
     (case org of (ox, oy, oz) \<Rightarrow>
      case sz of (w, h, d) \<Rightarrow>
        bind_err (box_uvs (fst uvo) (snd uvo) w h d (real_of_int TEX_W) (real_of_int TEX_H)) (\<lambda>u.
          Inr \<lparr> name = nm,
                origin = (ox - infl, oy - infl, oz - infl),
                size_part = (w + 2 * infl, h + 2 * infl, d + 2 * infl),
                uv_origin = uvo,
                inflate = infl,
                uvs = u,
                pivot = (case pv of Some p \<Rightarrow> p | None \<Rightarrow> (ox + w / 2, oy + h / 2, oz + d / 2)),
                rotation = (case rot of Some r \<Rightarrow> r | None \<Rightarrow> (0, 0, 0)) \<rparr>))"

text \<open>\<^verbatim>\<open>BoxPart.get_face_quads\<close>: six quads, appended in the order of the source.\<close>

definition get_face_quads :: "BoxPart \<Rightarrow> error + quad list" where
  "get_face_quads part =
     (case origin part of (x0, y0, z0) \<Rightarrow>
      case size_part part of (w, h, d) \<Rightarrow>
      let x1 = x0 + w; y1 = y0 + h; z1 = z0 + d in
        bind_err (dict_get (uvs part) ''front'') (\<lambda>(u0, v0, u1, v1).
        let q_front = (''front'',
              [(x0, y0, z0), (x1, y0, z0), (x1, y1, z0), (x0, y1, z0)],
              [(u1, v1), (u0, v1), (u0, v0), (u1, v0)]) in
        bind_err (dict_get (uvs part) ''back'') (\<lambda>(u0, v0, u1, v1).
        let q_back = (''back'',
              [(x1, y0, z1), (x0, y0, z1), (x0, y1, z1), (x1, y1, z1)],
              [(u1, v1), (u0, v1), (u0, v0), (u1, v0)]) in
        bind_err (dict_get (uvs part) ''right'') (\<lambda>(u0, v0, u1, v1).
        let q_right = (''right'',
              [(x0, y0, z1), (x0, y0, z0), (x0, y1, z0), (x0, y1, z1)],
              [(u1, v1), (u0, v1), (u0, v0), (u1, v0)]) in
        bind_err (dict_get (uvs part) ''left'') (\<lambda>(u0, v0, u1, v1).
        let q_left = (''left'',
              [(x1, y0, z0), (x1, y0, z1), (x1, y1, z1), (x1, y1, z0)],
              [(u1, v1), (u0, v1), (u0, v0), (u1, v0)]) in
        bind_err (dict_get (uvs part) ''top'') (\<lambda>(u0, v0, u1, v1).
        let q_top = (''top'',
              [(x0, y1, z0), (x1, y1, z0), (x1, y1, z1), (x0, y1, z1)],
              [(u0, v0), (u1, v0), (u1, v1), (u0, v1)]) in
        bind_err (dict_get (uvs part) ''bottom'') (\<lambda>(u0, v0, u1, v1).
        let q_bottom = (''bottom'',
              [(x0, y0, z1), (x1, y0, z1), (x1, y0, z0), (x0, y0, z0)],
              [(u0, v0), (u1, v0), (u1, v1), (u0, v1)]) in
          Inr [q_front, q_back, q_right, q_left, q_top, q_bottom])))))))"

section \<open>model.py: the player model and its poses\<close>

text \<open>
  \<^verbatim>\<open>PlayerModel\<close> with its two part lists.  The attribute \<^verbatim>\<open>_pose_rotations\<close> is
  assigned an empty dict by the constructor and never read; it is left out.
\<close>

record PlayerModel =
  base_parts :: "BoxPart list"
  overlay_parts :: "BoxPart list"

definition get_all_parts :: "PlayerModel \<Rightarrow> BoxPart list" where
  "get_all_parts model = base_parts model @ overlay_parts model"

text \<open>Python's \<^verbatim>\<open>needle in haystack\<close> on strings: a contiguous occurrence.\<close>

fun str_contains :: "string \<Rightarrow> string \<Rightarrow> bool" where
  "str_contains needle [] = (needle = [])"
| "str_contains needle (c # cs) = (prefix needle (c # cs) \<or> str_contains needle cs)"

text \<open>The bodies of the three loops of \<^verbatim>\<open>_apply_pose\<close>, each acting on one part.\<close>

definition pose_reset :: "BoxPart \<Rightarrow> BoxPart" where
  "pose_reset part = part\<lparr>rotation := (0, 0, 0)\<rparr>"

definition pose_walking :: "BoxPart \<Rightarrow> BoxPart" where
  "pose_walking part =
     (if str_contains ''rightArm'' (name part) \<or> str_contains ''rightSleeve'' (name part)
        then part\<lparr>rotation := (30, 0, 0)\<rparr>
      else if str_contains ''leftArm'' (name part) \<or> str_contains ''leftSleeve'' (name part)
        then part\<lparr>rotation := (- 30, 0, 0)\<rparr>
      else if str_contains ''rightLeg'' (name part) \<or> str_contains ''rightPants'' (name part)
        then part\<lparr>rotation := (- 30, 0, 0)\<rparr>
      else if str_contains ''leftLeg'' (name part) \<or> str_contains ''leftPants'' (name part)
        then part\<lparr>rotation := (30, 0, 0)\<rparr>
      else part)"

definition pose_arms_out :: "BoxPart \<Rightarrow> BoxPart" where
  "pose_arms_out part =
     (if str_contains ''rightArm'' (name part) \<or> str_contains ''rightSleeve'' (name part)
        then part\<lparr>rotation := (0, 0, 90)\<rparr>
      else if str_contains ''leftArm'' (name part) \<or> str_contains ''leftSleeve'' (name part)
        then part\<lparr>rotation := (0, 0, - 90)\<rparr>
      else part)"

text \<open>
  \<^verbatim>\<open>PlayerModel._apply_pose\<close> mutates the parts in place; here the model is passed in
  and the updated model returned.  Each loop visits every part of both lists and
  changes a part from its own name only, so a loop is \<open>map\<close> over both lists.
\<close>

definition map_parts :: "(BoxPart \<Rightarrow> BoxPart) \<Rightarrow> PlayerModel \<Rightarrow> PlayerModel" where
  "map_parts f model =
     model\<lparr>base_parts := map f (base_parts model), overlay_parts := map f (overlay_parts model)\<rparr>"

definition apply_pose :: "PlayerModel \<Rightarrow> int \<Rightarrow> PlayerModel" where
  "apply_pose model pose_index =
     (let model1 = map_parts pose_reset model in
      if pose_index = 1 then map_parts pose_walking model1
      else if pose_index = 2 then map_parts pose_arms_out model1
      else model1)"

definition set_pose :: "PlayerModel \<Rightarrow> int \<Rightarrow> PlayerModel" where
  "set_pose model pose_index = apply_pose model pose_index"

text \<open>\<^verbatim>\<open>math.radians\<close> and \<^verbatim>\<open>_rotate_point\<close>.\<close>

definition radians :: "real \<Rightarrow> real" where
  "radians a = a * pi / 180"

definition rotate_point :: "real \<Rightarrow> real \<Rightarrow> real \<Rightarrow> vec3 \<Rightarrow> vec3 \<Rightarrow> vec3" where
  "rotate_point px py pz pv rotation_deg =
     (case pv of (cx, cy, cz) \<Rightarrow>
      case rotation_deg of (ax, ay, az) \<Rightarrow>
      let rx = radians ax; ry = radians ay; rz = radians az;
          x = px - cx; y = py - cy; z = pz - cz;
          y1 = cos rx * y - sin rx * z; z1 = sin rx * y + cos rx * z;
          x2 = cos ry * x + sin ry * z1; z2 = - sin ry * x + cos ry * z1;
          x3 = cos rz * x2 - sin rz * y1; y3 = sin rz * x2 + cos rz * y1
      in (x3 + cx, y3 + cy, z2 + cz))"

definition get_transformed_quads :: "BoxPart \<Rightarrow> error + quad list" where
  "get_transformed_quads part =
     bind_err (get_face_quads part) (\<lambda>quads.
       case rotation part of (rx, ry, rz) \<Rightarrow>
         if rx = 0 \<and> ry = 0 \<and> rz = 0 then Inr quads
         else Inr (map (\<lambda>(face_name, verts, tex).
                     (face_name,
                      map (\<lambda>(vx, vy, vz). rotate_point vx vy vz (pivot part) (rotation part)) verts,
                      tex)) quads))"

text \<open>A list display of constructor calls: the first one that raises ends the evaluation.\<close>

fun collect_err :: "(error + 'a) list \<Rightarrow> error + 'a list" where
  "collect_err [] = Inr []"
| "collect_err (r # rs) = bind_err r (\<lambda>x. bind_err (collect_err rs) (\<lambda>xs. Inr (x # xs)))"

definition SteveModel :: "error + PlayerModel" where
  "SteveModel =
     bind_err (collect_err
       [BoxPart_init ''head'' (- 4, 24, - 4) (8, 8, 8) (0, 0) 0 (Some (0, 24, 0)) None,
        BoxPart_init ''body'' (- 4, 12, - 2) (8, 12, 4) (16, 16) 0 (Some (0, 24, 0)) None,
        BoxPart_init ''rightArm'' (- 8, 12, - 2) (4, 12, 4) (40, 16) 0 (Some (- 5, 22, 0)) None,
        BoxPart_init ''leftArm'' (4, 12, - 2) (4, 12, 4) (32, 48) 0 (Some (5, 22, 0)) None,
        BoxPart_init ''rightLeg'' (- 39 / 10, 0, - 2) (4, 12, 4) (0, 16) 0 (Some (- 19 / 10, 12, 0)) None,
        BoxPart_init ''leftLeg'' (- 1 / 10, 0, - 2) (4, 12, 4) (16, 48) 0 (Some (19 / 10, 12, 0)) None])
     (\<lambda>base.
     bind_err (collect_err
       [BoxPart_init ''hat'' (- 4, 24, - 4) (8, 8, 8) (32, 0) (1 / 2) (Some (0, 24, 0)) None,
        BoxPart_init ''jacket'' (- 4, 12, - 2) (8, 12, 4) (16, 32) (1 / 2) (Some (0, 24, 0)) None,
        BoxPart_init ''rightSleeve'' (- 8, 12, - 2) (4, 12, 4) (40, 32) (1 / 2) (Some (- 5, 22, 0)) None,
        BoxPart_init ''leftSleeve'' (4, 12, - 2) (4, 12, 4) (48, 48) (1 / 2) (Some (5, 22, 0)) None,
        BoxPart_init ''rightPants'' (- 39 / 10, 0, - 2) (4, 12, 4) (0, 32) (1 / 2) (Some (- 19 / 10, 12, 0)) None,
        BoxPart_init ''leftPants'' (- 1 / 10, 0, - 2) (4, 12, 4) (0, 48) (1 / 2) (Some (19 / 10, 12, 0)) None])
     (\<lambda>overlay. Inr \<lparr> base_parts = base, overlay_parts = overlay \<rparr>))"

definition AlexModel :: "error + PlayerModel" where
  "AlexModel =
     bind_err (collect_err
       [BoxPart_init ''head'' (- 4, 24, - 4) (8, 8, 8) (0, 0) 0 (Some (0, 24, 0)) None,
        BoxPart_init ''body'' (- 4, 12, - 2) (8, 12, 4) (16, 16) 0 (Some (0, 24, 0)) None,
        BoxPart_init ''rightArm'' (- 7, 12, - 2) (3, 12, 4) (40, 16) 0 (Some (- 5, 43 / 2, 0)) None,
        BoxPart_init ''leftArm'' (4, 12, - 2) (3, 12, 4) (32, 48) 0 (Some (5, 43 / 2, 0)) None,
        BoxPart_init ''rightLeg'' (- 39 / 10, 0, - 2) (4, 12, 4) (0, 16) 0 (Some (- 19 / 10, 12, 0)) None,
        BoxPart_init ''leftLeg'' (- 1 / 10, 0, - 2) (4, 12, 4) (16, 48) 0 (Some (19 / 10, 12, 0)) None])
     (\<lambda>base.
     bind_err (collect_err
       [BoxPart_init ''hat'' (- 4, 24, - 4) (8, 8, 8) (32, 0) (1 / 2) (Some (0, 24, 0)) None,
        BoxPart_init ''jacket'' (- 4, 12, - 2) (8, 12, 4) (16, 32) (1 / 2) (Some (0, 24, 0)) None,
        BoxPart_init ''rightSleeve'' (- 7, 12, - 2) (3, 12, 4) (40, 32) (1 / 2) (Some (- 5, 43 / 2, 0)) None,
        BoxPart_init ''leftSleeve'' (4, 12, - 2) (3, 12, 4) (48, 48) (1 / 2) (Some (5, 43 / 2, 0)) None,
        BoxPart_init ''rightPants'' (- 39 / 10, 0, - 2) (4, 12, 4) (0, 32) (1 / 2) (Some (- 19 / 10, 12, 0)) None,
        BoxPart_init ''leftPants'' (- 1 / 10, 0, - 2) (4, 12, 4) (0, 48) (1 / 2) (Some (19 / 10, 12, 0)) None])
     (\<lambda>overlay. Inr \<lparr> base_parts = base, overlay_parts = overlay \<rparr>))"

section \<open>mathutil.py: 4x4 matrices as column-major flat lists\<close>

text \<open>
  A matrix is a Python list, here a \<open>real list\<close>.  The functions subscript it with
  constants up to 15; on a list shorter than 16 the first subscript past its end raises
  \<^verbatim>\<open>IndexError\<close>, and nothing else can be raised before it, so the check is made
  once, at the head of each function.
\<close>

definition identity :: "real list" where
  "identity = [1, 0, 0, 0,  0, 1, 0, 0,  0, 0, 1, 0,  0, 0, 0, 1]"

text \<open>The list \<^verbatim>\<open>inv\<close> of \<^verbatim>\<open>mat4_inverse\<close> after its sixteen assignments, by index.\<close>

definition cofactors :: "real list \<Rightarrow> real list" where
  "cofactors m =
     [
       m ! 5 * m ! 10 * m ! 15 - m ! 5 * m ! 11 * m ! 14 - m ! 9 * m ! 6 * m ! 15
         + m ! 9 * m ! 7 * m ! 14 + m ! 13 * m ! 6 * m ! 11 - m ! 13 * m ! 7 * m ! 10,
       - m ! 1 * m ! 10 * m ! 15 + m ! 1 * m ! 11 * m ! 14 + m ! 9 * m ! 2 * m ! 15
         - m ! 9 * m ! 3 * m ! 14 - m ! 13 * m ! 2 * m ! 11 + m ! 13 * m ! 3 * m ! 10,
       m ! 1 * m ! 6 * m ! 15 - m ! 1 * m ! 7 * m ! 14 - m ! 5 * m ! 2 * m ! 15
         + m ! 5 * m ! 3 * m ! 14 + m ! 13 * m ! 2 * m ! 7 - m ! 13 * m ! 3 * m ! 6,
       - m ! 1 * m ! 6 * m ! 11 + m ! 1 * m ! 7 * m ! 10 + m ! 5 * m ! 2 * m ! 11
         - m ! 5 * m ! 3 * m ! 10 - m ! 9 * m ! 2 * m ! 7 + m ! 9 * m ! 3 * m ! 6,
       - m ! 4 * m ! 10 * m ! 15 + m ! 4 * m ! 11 * m ! 14 + m ! 8 * m ! 6 * m ! 15
         - m ! 8 * m ! 7 * m ! 14 - m ! 12 * m ! 6 * m ! 11 + m ! 12 * m ! 7 * m ! 10,
       m ! 0 * m ! 10 * m ! 15 - m ! 0 * m ! 11 * m ! 14 - m ! 8 * m ! 2 * m ! 15
         + m ! 8 * m ! 3 * m ! 14 + m ! 12 * m ! 2 * m ! 11 - m ! 12 * m ! 3 * m ! 10,
       - m ! 0 * m ! 6 * m ! 15 + m ! 0 * m ! 7 * m ! 14 + m ! 4 * m ! 2 * m ! 15
         - m ! 4 * m ! 3 * m ! 14 - m ! 12 * m ! 2 * m ! 7 + m ! 12 * m ! 3 * m ! 6,
       m ! 0 * m ! 6 * m ! 11 - m ! 0 * m ! 7 * m ! 10 - m ! 4 * m ! 2 * m ! 11
         + m ! 4 * m ! 3 * m ! 10 + m ! 8 * m ! 2 * m ! 7 - m ! 8 * m ! 3 * m ! 6,
       m ! 4 * m ! 9 * m ! 15 - m ! 4 * m ! 11 * m ! 13 - m ! 8 * m ! 5 * m ! 15
         + m ! 8 * m ! 7 * m ! 13 + m ! 12 * m ! 5 * m ! 11 - m ! 12 * m ! 7 * m ! 9,
       - m ! 0 * m ! 9 * m ! 15 + m ! 0 * m ! 11 * m ! 13 + m ! 8 * m ! 1 * m ! 15
         - m ! 8 * m ! 3 * m ! 13 - m ! 12 * m ! 1 * m ! 11 + m ! 12 * m ! 3 * m ! 9,
       m ! 0 * m ! 5 * m ! 15 - m ! 0 * m ! 7 * m ! 13 - m ! 4 * m ! 1 * m ! 15
         + m ! 4 * m ! 3 * m ! 13 + m ! 12 * m ! 1 * m ! 7 - m ! 12 * m ! 3 * m ! 5,
       - m ! 0 * m ! 5 * m ! 11 + m ! 0 * m ! 7 * m ! 9 + m ! 4 * m ! 1 * m ! 11
         - m ! 4 * m ! 3 * m ! 9 - m ! 8 * m ! 1 * m ! 7 + m ! 8 * m ! 3 * m ! 5,
       - m ! 4 * m ! 9 * m ! 14 + m ! 4 * m ! 10 * m ! 13 + m ! 8 * m ! 5 * m ! 14
         - m ! 8 * m ! 6 * m ! 13 - m ! 12 * m ! 5 * m ! 10 + m ! 12 * m ! 6 * m ! 9,
       m ! 0 * m ! 9 * m ! 14 - m ! 0 * m ! 10 * m ! 13 - m ! 8 * m ! 1 * m ! 14
         + m ! 8 * m ! 2 * m ! 13 + m ! 12 * m ! 1 * m ! 10 - m ! 12 * m ! 2 * m ! 9,
       - m ! 0 * m ! 5 * m ! 14 + m ! 0 * m ! 6 * m ! 13 + m ! 4 * m ! 1 * m ! 14
         - m ! 4 * m ! 2 * m ! 13 - m ! 12 * m ! 1 * m ! 6 + m ! 12 * m ! 2 * m ! 5,
       m ! 0 * m ! 5 * m ! 10 - m ! 0 * m ! 6 * m ! 9 - m ! 4 * m ! 1 * m ! 10
         + m ! 4 * m ! 2 * m ! 9 + m ! 8 * m ! 1 * m ! 6 - m ! 8 * m ! 2 * m ! 5
     ]"

text \<open>
  The local \<^verbatim>\<open>det\<close> of \<^verbatim>\<open>mat4_inverse\<close>, before it is overwritten by its reciprocal.
  The source computes the cofactors, the determinant and the scaled entries in doubles:
  its determinant is the one below up to rounding, and on a matrix whose determinant is
  small against its entries the test against 1e-12 can fall on the other side.
\<close>

definition mat4_det :: "real list \<Rightarrow> real" where
  "mat4_det m =
     (let inv = cofactors m
      in m ! 0 * inv ! 0 + m ! 1 * inv ! 4 + m ! 2 * inv ! 8 + m ! 3 * inv ! 12)"

definition mat4_inverse :: "real list \<Rightarrow> error + real list option" where
  "mat4_inverse m =
     (if length m < 16 then Inl IndexError
      else let inv = cofactors m; det = mat4_det m
           in if \<bar>det\<bar> < 1 / 10 ^ 12 then Inr None
              else let det' = 1 / det in Inr (Some (map (\<lambda>x. x * det') inv)))"

definition mat4_mul_vec4 :: "real list \<Rightarrow> vec4 \<Rightarrow> error + vec4" where
  "mat4_mul_vec4 m v =
     (case v of (x, y, z, w) \<Rightarrow>
      if length m < 16 then Inl IndexError
      else Inr (m ! 0 * x + m ! 4 * y + m ! 8 * z + m ! 12 * w,
                m ! 1 * x + m ! 5 * y + m ! 9 * z + m ! 13 * w,
                m ! 2 * x + m ! 6 * y + m ! 10 * z + m ! 14 * w,
                m ! 3 * x + m ! 7 * y + m ! 11 * z + m ! 15 * w))"

section \<open>interaction.py: unprojection, intersection and picking\<close>

text \<open>The generator \<^verbatim>\<open>tuple(c / v[3] for c in v)\<close>, reached only where \<^verbatim>\<open>abs(v[3]) >= 1e-12\<close>.\<close>

definition persp_divide :: "vec4 \<Rightarrow> vec4" where
  "persp_divide v = (case v of (x, y, z, w) \<Rightarrow> (x / w, y / w, z / w, w / w))"

text \<open>
  \<^verbatim>\<open>_unproject\<close>.  The source returns the pair \<^verbatim>\<open>(None, None)\<close> or
  \<^verbatim>\<open>(origin, direction)\<close>; the model returns \<open>None\<close> or \<open>Some (origin, direction)\<close>.
  The two divisions by the viewport size come first and raise on zero; the three
  squares under the root raise when a component of the direction is too large.
\<close>

definition unproject ::
  "real \<Rightarrow> real \<Rightarrow> real \<Rightarrow> real \<Rightarrow> real list \<Rightarrow> real list \<Rightarrow> error + (vec3 \<times> vec3) option" where
  "unproject mx my viewport_w viewport_h proj view =
     (if viewport_w = 0 then Inl ZeroDivisionError
      else let ndc_x = (2 * mx / viewport_w) - 1 in
      if viewport_h = 0 then Inl ZeroDivisionError
      else let ndc_y = 1 - (2 * my / viewport_h) in
      bind_err (mat4_inverse proj) (\<lambda>inv_proj_opt.
      bind_err (mat4_inverse view) (\<lambda>inv_view_opt.
        case inv_proj_opt of None \<Rightarrow> Inr None | Some inv_proj \<Rightarrow>
       (case inv_view_opt of None \<Rightarrow> Inr None | Some inv_view \<Rightarrow>
          let near_clip = (ndc_x, ndc_y, - 1, 1);
              far_clip = (ndc_x, ndc_y, 1, 1) in
          bind_err (mat4_mul_vec4 inv_proj near_clip) (\<lambda>near_eye.
          bind_err (mat4_mul_vec4 inv_proj far_clip) (\<lambda>far_eye.
            if \<bar>snd (snd (snd near_eye))\<bar> < 1 / 10 ^ 12 \<or> \<bar>snd (snd (snd far_eye))\<bar> < 1 / 10 ^ 12
            then Inr None
            else
              bind_err (mat4_mul_vec4 inv_view (persp_divide near_eye)) (\<lambda>near_world.
              bind_err (mat4_mul_vec4 inv_view (persp_divide far_eye)) (\<lambda>far_world.
                case near_world of (nx, ny, nz, nw) \<Rightarrow>
                case far_world of (fx, fy, fz, fw) \<Rightarrow>
                let dx = fx - nx; dy = fy - ny; dz = fz - nz in
                bind_err (float_square dx) (\<lambda>sx.
                bind_err (float_square dy) (\<lambda>sy.
                bind_err (float_square dz) (\<lambda>sz.
                  let dl = sqrt (sx + sy + sz) in
                  if dl < 1 / 10 ^ 12 then Inr None
                  else Inr (Some ((nx, ny, nz), (dx / dl, dy / dl, dz / dl))))))))))))))"

definition EPSILON :: real where
  "EPSILON = 1 / 10 ^ 7"

text \<open>\<^verbatim>\<open>_ray_triangle_intersect\<close> (Moller-Trumbore); \<^verbatim>\<open>1.0 / a\<close> is reached only for a nonzero \<open>a\<close>.\<close>

definition ray_triangle_intersect ::
  "vec3 \<Rightarrow> vec3 \<Rightarrow> vec3 \<Rightarrow> vec3 \<Rightarrow> vec3 \<Rightarrow> uv \<Rightarrow> uv \<Rightarrow> uv \<Rightarrow> (real \<times> real \<times> real) option" where
  "ray_triangle_intersect org dir v0 v1 v2 uv0 uv1 uv2 =
     (case org of (ox, oy, oz) \<Rightarrow>
      case dir of (dx, dy, dz) \<Rightarrow>
      case v0 of (v0x, v0y, v0z) \<Rightarrow>
      case v1 of (v1x, v1y, v1z) \<Rightarrow>
      case v2 of (v2x, v2y, v2z) \<Rightarrow>
      let e1x = v1x - v0x; e1y = v1y - v0y; e1z = v1z - v0z;
          e2x = v2x - v0x; e2y = v2y - v0y; e2z = v2z - v0z;
          hx = dy * e2z - dz * e2y;
          hy = dz * e2x - dx * e2z;
          hz = dx * e2y - dy * e2x;
          a = e1x * hx + e1y * hy + e1z * hz in
      if \<bar>a\<bar> < EPSILON then None
      else
        let f = 1 / a;
            sx = ox - v0x; sy = oy - v0y; sz = oz - v0z;
            u = f * (sx * hx + sy * hy + sz * hz) in
        if u < 0 \<or> u > 1 then None
        else
          let qx = sy * e1z - sz * e1y;
              qy = sz * e1x - sx * e1z;
              qz = sx * e1y - sy * e1x;
              v = f * (dx * qx + dy * qy + dz * qz) in
          if v < 0 \<or> u + v > 1 then None
          else
            let t = f * (e2x * qx + e2y * qy + e2z * qz) in
            if t < EPSILON then None
            else
              let w0 = 1 - u - v;
                  tex_u = w0 * fst uv0 + u * fst uv1 + v * fst uv2;
                  tex_v = w0 * snd uv0 + u * snd uv1 + v * snd uv2
              in Some (t, tex_u, tex_v))"

text \<open>
  \<^verbatim>\<open>_ray_quad_intersect\<close>.  The first call subscripts \<^verbatim>\<open>verts\<close> and \<^verbatim>\<open>uvs\<close> up to 2,
  the second one up to 3, and the second call is made only when the first one missed.
\<close>

definition ray_quad_intersect ::
  "vec3 \<Rightarrow> vec3 \<Rightarrow> vec3 list \<Rightarrow> uv list \<Rightarrow> error + (real \<times> real \<times> real) option" where
  "ray_quad_intersect org dir verts tex =
     (if length verts < 3 \<or> length tex < 3 then Inl IndexError
      else
        case ray_triangle_intersect org dir (verts ! 0) (verts ! 1) (verts ! 2)
               (tex ! 0) (tex ! 1) (tex ! 2) of
          Some r \<Rightarrow> Inr (Some r)
        | None \<Rightarrow>
            if length verts < 4 \<or> length tex < 4 then Inl IndexError
            else Inr (ray_triangle_intersect org dir (verts ! 0) (verts ! 2) (verts ! 3)
                        (tex ! 0) (tex ! 2) (tex ! 3)))"

text \<open>
  The loop state of \<^verbatim>\<open>pick\<close>: \<^verbatim>\<open>best_t\<close>, with \<open>None\<close> for its initial value
  \<^verbatim>\<open>float('inf')\<close> (every real is below it), and \<^verbatim>\<open>best_uv\<close>.
\<close>

type_synonym best = "real option \<times> uv option"

definition update_best :: "best \<Rightarrow> (real \<times> real \<times> real) option \<Rightarrow> best" where
  "update_best st hit =
     (case hit of
        None \<Rightarrow> st
      | Some (t, tex_u, tex_v) \<Rightarrow>
          (case fst st of
             None \<Rightarrow> (Some t, Some (tex_u, tex_v))
           | Some best_t \<Rightarrow> if t < best_t then (Some t, Some (tex_u, tex_v)) else st))"

fun scan_quads :: "vec3 \<Rightarrow> vec3 \<Rightarrow> quad list \<Rightarrow> best \<Rightarrow> error + best" where
  "scan_quads org dir [] st = Inr st"
| "scan_quads org dir (q # qs) st =
     (case ray_quad_intersect org dir (fst (snd q)) (snd (snd q)) of
        Inl e \<Rightarrow> Inl e
      | Inr hit \<Rightarrow> scan_quads org dir qs (update_best st hit))"

fun scan_parts :: "vec3 \<Rightarrow> vec3 \<Rightarrow> BoxPart list \<Rightarrow> best \<Rightarrow> error + best" where
  "scan_parts org dir [] st = Inr st"
| "scan_parts org dir (part # parts) st =
     (case get_transformed_quads part of
        Inl e \<Rightarrow> Inl e
      | Inr quads \<Rightarrow>
          (case scan_quads org dir quads st of
             Inl e \<Rightarrow> Inl e
           | Inr st' \<Rightarrow> scan_parts org dir parts st'))"

text \<open>Python's \<^verbatim>\<open>int(x)\<close> on a float: truncation towards zero.\<close>

definition py_int :: "real \<Rightarrow> int" where
  "py_int x = (if x < 0 then \<lceil>x\<rceil> else \<lfloor>x\<rfloor>)"

text \<open>The part of \<^verbatim>\<open>pick\<close> after the loop: from \<^verbatim>\<open>best_uv\<close> to the clamped texel.\<close>

definition texel_of_uv :: "uv \<Rightarrow> int \<times> int" where
  "texel_of_uv best_uv =
     (case best_uv of (tex_u, tex_v) \<Rightarrow>
      let px = py_int (tex_u * real_of_int TEX_W);
          py = py_int (tex_v * real_of_int TEX_H)
      in (max 0 (min (TEX_W - 1) px), max 0 (min (TEX_H - 1) py)))"

text \<open>The winning hit of the loop of \<^verbatim>\<open>pick\<close> for a given ray.\<close>

definition closest_hit :: "vec3 \<Rightarrow> vec3 \<Rightarrow> PlayerModel \<Rightarrow> bool \<Rightarrow> error + best" where
  "closest_hit org dir model overlay_visible =
     (let parts = (if overlay_visible then get_all_parts model else base_parts model)
      in scan_parts org dir parts (None, None))"

definition pick ::
  "real \<Rightarrow> real \<Rightarrow> real \<Rightarrow> real \<Rightarrow> real list \<Rightarrow> real list \<Rightarrow> PlayerModel \<Rightarrow> bool
     \<Rightarrow> error + (int \<times> int) option" where
  "pick mx my viewport_w viewport_h proj view model overlay_visible =
     bind_err (unproject mx my viewport_w viewport_h proj view) (\<lambda>ray.
       case ray of
         None \<Rightarrow> Inr None
       | Some (org, dir) \<Rightarrow>
           bind_err (closest_hit org dir model overlay_visible) (\<lambda>st.
             case snd st of
               None \<Rightarrow> Inr None
             | Some best_uv \<Rightarrow> Inr (Some (texel_of_uv best_uv))))"

section \<open>Vocabulary of the statements and concrete inputs\<close>

text \<open>
  The value of \<open>box_uvs\<close> on the 64 x 64 atlas of \<open>TEX_W\<close> and \<open>TEX_H\<close>
  (lemma \<open>box_uvs_atlas\<close> below), the only one a \<open>BoxPart\<close> ever stores.
\<close>

definition atlas_uvs :: "real \<Rightarrow> real \<Rightarrow> real \<Rightarrow> real \<Rightarrow> real \<Rightarrow> (string \<times> rect) list" where
  "atlas_uvs u0 v0 w h d =
     [(''right'',  (u0 / 64, (v0 + d) / 64, (u0 + d) / 64, (v0 + d + h) / 64)),
      (''front'',  ((u0 + d) / 64, (v0 + d) / 64, (u0 + d + w) / 64, (v0 + d + h) / 64)),
      (''left'',   ((u0 + d + w) / 64, (v0 + d) / 64, (u0 + d + w + d) / 64, (v0 + d + h) / 64)),
      (''back'',   ((u0 + d + w + d) / 64, (v0 + d) / 64, (u0 + d + w + d + w) / 64, (v0 + d + h) / 64)),
      (''top'',    ((u0 + d) / 64, v0 / 64, (u0 + d + w) / 64, (v0 + d) / 64)),
      (''bottom'', ((u0 + d + w) / 64, v0 / 64, (u0 + d + w + w) / 64, (v0 + d) / 64))]"

text \<open>
  The unwrap table as the specification words it, to be compared with \<open>box_uvs\<close>: the
  six rectangles in pixels, each as (x, y, width, height), and the conversion of such a
  rectangle to (uMin, vMin, uMax, vMax) by the width and the height of the atlas.
\<close>

definition spec_pixel_rects :: "real \<Rightarrow> real \<Rightarrow> real \<Rightarrow> real \<Rightarrow> real \<Rightarrow> (string \<times> rect) list" where
  "spec_pixel_rects u0 v0 w h d =
     [(''right'',  (u0,             v0 + d, d, h)),
      (''front'',  (u0 + d,         v0 + d, w, h)),
      (''left'',   (u0 + d + w,     v0 + d, d, h)),
      (''back'',   (u0 + d + w + d, v0 + d, w, h)),
      (''top'',    (u0 + d,         v0,     w, d)),
      (''bottom'', (u0 + d + w,     v0,     w, d))]"

definition spec_normalize :: "real \<Rightarrow> real \<Rightarrow> rect \<Rightarrow> rect" where
  "spec_normalize atlas_w atlas_h r =
     (case r of (x, y, width, height) \<Rightarrow>
        (x / atlas_w, y / atlas_h, (x + width) / atlas_w, (y + height) / atlas_h))"

text \<open>
  Vectors: difference, dot product, Euclidean length, normalisation, whether the square
  of a component is too large for a double, and the parts of a 4-vector.
\<close>

definition sub3 :: "vec3 \<Rightarrow> vec3 \<Rightarrow> vec3" where
  "sub3 a b = (case a of (ax, ay, az) \<Rightarrow> case b of (bx, by, bz) \<Rightarrow> (ax - bx, ay - by, az - bz))"

definition dot3 :: "vec3 \<Rightarrow> vec3 \<Rightarrow> real" where
  "dot3 a b = (case a of (ax, ay, az) \<Rightarrow> case b of (bx, by, bz) \<Rightarrow> ax * bx + ay * by + az * bz)"

definition vec3_len :: "vec3 \<Rightarrow> real" where
  "vec3_len a = (case a of (ax, ay, az) \<Rightarrow> sqrt (ax ^ 2 + ay ^ 2 + az ^ 2))"

definition normalize3 :: "vec3 \<Rightarrow> vec3" where
  "normalize3 a = (case a of (ax, ay, az) \<Rightarrow> (ax / vec3_len a, ay / vec3_len a, az / vec3_len a))"

definition square_overflows :: "vec3 \<Rightarrow> bool" where
  "square_overflows a =
     (case a of (ax, ay, az) \<Rightarrow>
        DBL_OVERFLOW \<le> ax ^ 2 \<or> DBL_OVERFLOW \<le> ay ^ 2 \<or> DBL_OVERFLOW \<le> az ^ 2)"

definition xyz_of :: "vec4 \<Rightarrow> vec3" where
  "xyz_of v = (case v of (x, y, z, w) \<Rightarrow> (x, y, z))"

definition w_of :: "vec4 \<Rightarrow> real" where
  "w_of v = (case v of (x, y, z, w) \<Rightarrow> w)"

text \<open>
  The face normal as the renderer computes it (\<^verbatim>\<open>renderer.py\<close>, \<^verbatim>\<open>build_model_buffers\<close>,
  before normalisation): the cross product of the edges from vertex 0 to vertices 1 and 2.
  In the right-handed world space of \<^verbatim>\<open>look_at\<close> and \<^verbatim>\<open>perspective\<close> a polygon is seen
  counter-clockwise from the side this normal points to.  \<open>outward_turn\<close> is the dot
  product of that normal with the direction from the centre of the box to the face:
  positive when the face is counter-clockwise seen from outside the box, negative
  when it is clockwise.
\<close>

definition face_normal :: "vec3 list \<Rightarrow> vec3" where
  "face_normal verts =
     (case sub3 (verts ! 1) (verts ! 0) of (e1x, e1y, e1z) \<Rightarrow>
      case sub3 (verts ! 2) (verts ! 0) of (e2x, e2y, e2z) \<Rightarrow>
        (e1y * e2z - e1z * e2y, e1z * e2x - e1x * e2z, e1x * e2y - e1y * e2x))"

definition box_centre :: "BoxPart \<Rightarrow> vec3" where
  "box_centre part =
     (case origin part of (x0, y0, z0) \<Rightarrow>
      case size_part part of (w, h, d) \<Rightarrow> (x0 + w / 2, y0 + h / 2, z0 + d / 2))"

definition outward_turn :: "BoxPart \<Rightarrow> vec3 list \<Rightarrow> real" where
  "outward_turn part verts = dot3 (face_normal verts) (sub3 (verts ! 0) (box_centre part))"

text \<open>The eight corners of a box part, from its stored origin and size.\<close>

definition box_corners :: "BoxPart \<Rightarrow> vec3 set" where
  "box_corners part =
     (case origin part of (x0, y0, z0) \<Rightarrow>
      case size_part part of (w, h, d) \<Rightarrow>
        {(x, y, z). (x = x0 \<or> x = x0 + w) \<and> (y = y0 \<or> y = y0 + h) \<and> (z = z0 \<or> z = z0 + d)})"

text \<open>
  The hits of a ray on a list of quads and on a list of parts, in the order in which
  the loops of \<^verbatim>\<open>pick\<close> meet them, and the loop body for one hit.
\<close>

fun hits_of_quads :: "vec3 \<Rightarrow> vec3 \<Rightarrow> quad list \<Rightarrow> (real \<times> real \<times> real) list" where
  "hits_of_quads org dir [] = []"
| "hits_of_quads org dir (q # qs) =
     (case ray_quad_intersect org dir (fst (snd q)) (snd (snd q)) of
        Inr (Some h) \<Rightarrow> h # hits_of_quads org dir qs
      | _ \<Rightarrow> hits_of_quads org dir qs)"

fun hits_of_parts :: "vec3 \<Rightarrow> vec3 \<Rightarrow> BoxPart list \<Rightarrow> (real \<times> real \<times> real) list" where
  "hits_of_parts org dir [] = []"
| "hits_of_parts org dir (p # ps) =
     (case get_transformed_quads p of
        Inr quads \<Rightarrow> hits_of_quads org dir quads @ hits_of_parts org dir ps
      | Inl e \<Rightarrow> hits_of_parts org dir ps)"

definition record_hit :: "best \<Rightarrow> real \<times> real \<times> real \<Rightarrow> best" where
  "record_hit st h = update_best st (Some h)"

text \<open>The arm parts of a model, base and overlay.\<close>

definition is_arm_part :: "BoxPart \<Rightarrow> bool" where
  "is_arm_part p = (str_contains ''Arm'' (name p) \<or> str_contains ''Sleeve'' (name p))"

text \<open>A model with one part whose name contains both \<^verbatim>\<open>rightArm\<close> and \<^verbatim>\<open>leftArm\<close>.\<close>

definition both_arms_model :: PlayerModel where
  "both_arms_model =
     \<lparr> base_parts =
         [\<lparr> name = ''rightArmleftArm'', origin = (0, 0, 0), size_part = (4, 12, 4),
            uv_origin = (40, 16), inflate = 0, uvs = atlas_uvs 40 16 4 12 4,
            pivot = (2, 6, 2), rotation = (0, 0, 0) \<rparr>],
       overlay_parts = [] \<rparr>"

text \<open>A model of three parts left in the arms-out pose.\<close>

definition posed_model :: PlayerModel where
  "posed_model =
     \<lparr> base_parts =
         [\<lparr> name = ''rightArm'', origin = (- 8, 12, - 2), size_part = (4, 12, 4),
            uv_origin = (40, 16), inflate = 0, uvs = atlas_uvs 40 16 4 12 4,
            pivot = (- 5, 22, 0), rotation = (0, 0, 90) \<rparr>,
          \<lparr> name = ''head'', origin = (- 4, 24, - 4), size_part = (8, 8, 8),
            uv_origin = (0, 0), inflate = 0, uvs = atlas_uvs 0 0 8 8 8,
            pivot = (0, 24, 0), rotation = (0, 0, 0) \<rparr>],
       overlay_parts =
         [\<lparr> name = ''leftSleeve'', origin = (7 / 2, 23 / 2, - 5 / 2), size_part = (5, 13, 5),
            uv_origin = (48, 48), inflate = 1 / 2, uvs = atlas_uvs 48 48 4 12 4,
            pivot = (5, 22, 0), rotation = (0, 0, - 90) \<rparr>] \<rparr>"

text \<open>
  The parts of \<^verbatim>\<open>test_no_rotation_unchanged\<close> and \<^verbatim>\<open>test_uvs_preserved_after_rotation\<close>:
  the same box, unturned and turned by (45, 30, 15) degrees.
\<close>

definition unturned_part :: BoxPart where
  "unturned_part =
     \<lparr> name = ''t'', origin = (0, 0, 0), size_part = (4, 4, 4), uv_origin = (0, 0),
       inflate = 0, uvs = atlas_uvs 0 0 4 4 4, pivot = (2, 2, 2), rotation = (0, 0, 0) \<rparr>"

definition turned_part :: BoxPart where
  "turned_part = unturned_part\<lparr>rotation := (45, 30, 15)\<rparr>"

text \<open>
  A view matrix that scales x by \<open>10 ^ 160\<close> and z by \<open>10 ^ (-160)\<close>, of determinant 1,
  and its inverse.
\<close>

definition stretched_view :: "real list" where
  "stretched_view = [10 ^ 160, 0, 0, 0,  0, 1, 0, 0,  0, 0, 1 / 10 ^ 160, 0,  0, 0, 0, 1]"

definition stretched_view_inv :: "real list" where
  "stretched_view_inv = [1 / 10 ^ 160, 0, 0, 0,  0, 1, 0, 0,  0, 0, 10 ^ 160, 0,  0, 0, 0, 1]"

section \<open>Basic facts\<close>

lemma bind_err_simps [simp]:
  "bind_err (Inl e) f = Inl e"
  "bind_err (Inr x) f = f x"
  by (simp_all add: bind_err_def)

lemma str_contains_iff: "str_contains needle hay \<longleftrightarrow> (\<exists>ps ss. hay = ps @ needle @ ss)"
proof (induction hay)
  case Nil
  then show ?case by auto
next
  case (Cons c cs)
  show ?case
  proof
    assume "str_contains needle (c # cs)"
    then consider "prefix needle (c # cs)" | "str_contains needle cs" by auto
    then show "\<exists>ps ss. c # cs = ps @ needle @ ss"
    proof cases
      case 1
      then obtain ss where "c # cs = needle @ ss" by (auto simp: prefix_def)
      then have "c # cs = [] @ needle @ ss" by simp
      then show ?thesis by blast
    next
      case 2
      with Cons obtain ps ss where "cs = ps @ needle @ ss" by blast
      then have "c # cs = (c # ps) @ needle @ ss" by simp
      then show ?thesis by blast
    qed
  next
    assume "\<exists>ps ss. c # cs = ps @ needle @ ss"
    then obtain ps ss where eq: "c # cs = ps @ needle @ ss" by blast
    show "str_contains needle (c # cs)"
    proof (cases ps)
      case Nil
      with eq have "prefix needle (c # cs)" by (simp add: prefix_def)
      then show ?thesis by simp
    next
      case (Cons a as)
      with eq have "cs = as @ needle @ ss" by simp
      with Cons.IH have "str_contains needle cs" by blast
      then show ?thesis by simp
    qed
  qed
qed

subsection \<open>Box parts\<close>

lemma box_uvs_value:
  "tex_w \<noteq> 0 \<Longrightarrow> tex_h \<noteq> 0 \<Longrightarrow>
   box_uvs u0 v0 w h d tex_w tex_h =
     Inr [(''right'',  (u0 / tex_w, (v0 + d) / tex_h, (u0 + d) / tex_w, (v0 + d + h) / tex_h)),
          (''front'',  ((u0 + d) / tex_w, (v0 + d) / tex_h, (u0 + d + w) / tex_w, (v0 + d + h) / tex_h)),
          (''left'',   ((u0 + d + w) / tex_w, (v0 + d) / tex_h, (u0 + d + w + d) / tex_w, (v0 + d + h) / tex_h)),
          (''back'',   ((u0 + d + w + d) / tex_w, (v0 + d) / tex_h, (u0 + d + w + d + w) / tex_w, (v0 + d + h) / tex_h)),
          (''top'',    ((u0 + d) / tex_w, v0 / tex_h, (u0 + d + w) / tex_w, (v0 + d) / tex_h)),
          (''bottom'', ((u0 + d + w) / tex_w, v0 / tex_h, (u0 + d + w + w) / tex_w, (v0 + d) / tex_h))]"
  by (simp add: box_uvs_def norm_rect_def)

lemma box_uvs_atlas:
  "box_uvs u0 v0 w h d (real_of_int TEX_W) (real_of_int TEX_H) = Inr (atlas_uvs u0 v0 w h d)"
  by (simp add: TEX_W_def TEX_H_def box_uvs_value atlas_uvs_def)

lemma BoxPart_init_value:
  "BoxPart_init nm (ox, oy, oz) (w, h, d) uvo infl pv rot =
     Inr \<lparr> name = nm,
           origin = (ox - infl, oy - infl, oz - infl),
           size_part = (w + 2 * infl, h + 2 * infl, d + 2 * infl),
           uv_origin = uvo,
           inflate = infl,
           uvs = atlas_uvs (fst uvo) (snd uvo) w h d,
           pivot = (case pv of Some p \<Rightarrow> p | None \<Rightarrow> (ox + w / 2, oy + h / 2, oz + d / 2)),
           rotation = (case rot of Some r \<Rightarrow> r | None \<Rightarrow> (0, 0, 0)) \<rparr>"
  by (simp add: BoxPart_init_def box_uvs_atlas)

lemma dict_get_atlas:
  "dict_get (atlas_uvs u0 v0 w h d) ''front'' = Inr ((u0 + d) / 64, (v0 + d) / 64, (u0 + d + w) / 64, (v0 + d + h) / 64)"
  "dict_get (atlas_uvs u0 v0 w h d) ''back'' = Inr ((u0 + d + w + d) / 64, (v0 + d) / 64, (u0 + d + w + d + w) / 64, (v0 + d + h) / 64)"
  "dict_get (atlas_uvs u0 v0 w h d) ''right'' = Inr (u0 / 64, (v0 + d) / 64, (u0 + d) / 64, (v0 + d + h) / 64)"
  "dict_get (atlas_uvs u0 v0 w h d) ''left'' = Inr ((u0 + d + w) / 64, (v0 + d) / 64, (u0 + d + w + d) / 64, (v0 + d + h) / 64)"
  "dict_get (atlas_uvs u0 v0 w h d) ''top'' = Inr ((u0 + d) / 64, v0 / 64, (u0 + d + w) / 64, (v0 + d) / 64)"
  "dict_get (atlas_uvs u0 v0 w h d) ''bottom'' = Inr ((u0 + d + w) / 64, v0 / 64, (u0 + d + w + w) / 64, (v0 + d) / 64)"
  by (simp_all add: dict_get_def atlas_uvs_def)

text \<open>
  What \<open>get_face_quads\<close> returns when it returns: the six face names in order, four
  vertices out of the eight corners and four UVs per quad; and for every face the same
  \<open>outward_turn\<close>, minus half the volume of the box.  For a box of positive size each
  face is therefore clockwise seen from outside.
\<close>

lemma get_face_quads_shape:
  assumes "get_face_quads part = Inr quads"
  shows "map fst quads = [''front'', ''back'', ''right'', ''left'', ''top'', ''bottom'']"
    and "\<forall>q\<in>set quads. length (fst (snd q)) = 4 \<and> length (snd (snd q)) = 4
            \<and> set (fst (snd q)) \<subseteq> box_corners part"
  using assms
  by (auto simp: get_face_quads_def Let_def bind_err_def box_corners_def
      split: prod.splits sum.splits)

lemma get_face_quads_turn:
  assumes "get_face_quads part = Inr quads" and "size_part part = (w, h, d)"
  shows "map (\<lambda>q. outward_turn part (fst (snd q))) quads = replicate 6 (- (w * h * d) / 2)"
  using assms
  by (auto simp: get_face_quads_def Let_def bind_err_def outward_turn_def face_normal_def
      box_centre_def sub3_def dot3_def eval_nat_numeral algebra_simps
      split: prod.splits sum.splits)

lemma get_face_quads_init:
  assumes "BoxPart_init nm org sz uvo infl pv rot = Inr p"
  shows "\<exists>quads. get_face_quads (p\<lparr>rotation := r\<rparr>) = Inr quads"
proof -
  obtain ox oy oz where o: "org = (ox, oy, oz)" by (cases org) auto
  obtain w h d where s: "sz = (w, h, d)" by (cases sz) auto
  from assms show ?thesis
    unfolding o s BoxPart_init_value
    by (auto simp: get_face_quads_def dict_get_atlas Let_def)
qed

lemma get_transformed_quads_lengths:
  assumes "get_face_quads part = Inr quads"
  shows "\<exists>tq. get_transformed_quads part = Inr tq
           \<and> (\<forall>q\<in>set tq. length (fst (snd q)) = 4 \<and> length (snd (snd q)) = 4)"
proof -
  obtain rx ry rz where r: "rotation part = (rx, ry, rz)" by (cases "rotation part") auto
  from get_face_quads_shape(2) [OF assms]
  have "\<forall>q\<in>set quads. length (fst (snd q)) = 4 \<and> length (snd (snd q)) = 4" by blast
  then show ?thesis
    using assms r by (auto simp: get_transformed_quads_def split: prod.splits)
qed

subsection \<open>Poses\<close>

lemma get_all_parts_map_parts:
  "get_all_parts (map_parts f model) = map f (get_all_parts model)"
  by (simp add: get_all_parts_def map_parts_def)

lemma pose_walking_reset:
  "pose_walking (pose_reset p) =
     p\<lparr>rotation :=
        (if str_contains ''rightArm'' (name p) \<or> str_contains ''rightSleeve'' (name p) then (30, 0, 0)
         else if str_contains ''leftArm'' (name p) \<or> str_contains ''leftSleeve'' (name p) then (- 30, 0, 0)
         else if str_contains ''rightLeg'' (name p) \<or> str_contains ''rightPants'' (name p) then (- 30, 0, 0)
         else if str_contains ''leftLeg'' (name p) \<or> str_contains ''leftPants'' (name p) then (30, 0, 0)
         else (0, 0, 0))\<rparr>"
  by (simp add: pose_walking_def pose_reset_def)

subsection \<open>Matrices\<close>

lemma length_cofactors: "length (cofactors m) = 16"
  by (simp add: cofactors_def)

lemma mat4_inverse_cases:
  assumes "length m = 16"
  shows "mat4_inverse m =
           (if \<bar>mat4_det m\<bar> < 1 / 10 ^ 12 then Inr None
            else Inr (Some (map (\<lambda>x. x * (1 / mat4_det m)) (cofactors m))))"
  using assms by (simp add: mat4_inverse_def Let_def)

lemma mat4_inverse_length:
  assumes "mat4_inverse m = Inr (Some mi)"
  shows "length mi = 16"
  using assms by (auto simp: mat4_inverse_def Let_def length_cofactors split: if_splits)

lemma mat4_inverse_identity: "mat4_inverse identity = Inr (Some identity)"
  by (simp add: mat4_inverse_def mat4_det_def cofactors_def identity_def Let_def)

lemma mat4_inverse_zero: "mat4_inverse (replicate 16 0) = Inr None"
  by (simp add: mat4_inverse_def mat4_det_def cofactors_def Let_def)

lemma mat4_mul_vec4_total:
  "length m = 16 \<Longrightarrow> \<exists>r. mat4_mul_vec4 m v = Inr r"
  by (cases v) (simp add: mat4_mul_vec4_def)

lemma mat4_inverse_total:
  "length m = 16 \<Longrightarrow> \<exists>r. mat4_inverse m = Inr r"
  by (simp add: mat4_inverse_cases)

subsection \<open>Rays and picking\<close>

lemma vec3_len_normalize3:
  assumes "vec3_len v \<noteq> 0"
  shows "vec3_len (normalize3 v) = 1"
proof -
  obtain x y z where v: "v = (x, y, z)" by (cases v) auto
  define L where "L = sqrt (x ^ 2 + y ^ 2 + z ^ 2)"
  from assms have L0: "L \<noteq> 0" by (simp add: v vec3_len_def L_def)
  have LL: "L ^ 2 = x ^ 2 + y ^ 2 + z ^ 2"
    unfolding L_def by (simp add: real_sqrt_pow2_iff sum_nonneg)
  have "(x / L) ^ 2 + (y / L) ^ 2 + (z / L) ^ 2 = (x ^ 2 + y ^ 2 + z ^ 2) / L ^ 2"
    by (simp add: power_divide add_divide_distrib)
  also have "\<dots> = 1" using L0 by (simp add: LL [symmetric])
  finally show ?thesis
    by (simp add: v normalize3_def vec3_len_def L_def [symmetric])
qed

text \<open>
  The paths of \<open>unproject\<close> in exact arithmetic, on a viewport of nonzero width and
  height and matrices of sixteen entries: no result when an inverse is no result or a
  \<open>w\<close> is below 1e-12 in absolute value; \<^verbatim>\<open>OverflowError\<close> when the square of a
  component of the direction is too large; no result when the direction is shorter
  than 1e-12; and otherwise the near world point with the normalised direction, whose
  length is 1.  On doubles the tests against 1e-12 are made on rounded values.
\<close>

lemma unproject_paths:
  assumes "viewport_w \<noteq> 0" and "viewport_h \<noteq> 0" and "length proj = 16" and "length view = 16"
  shows "\<exists>ip iv. mat4_inverse proj = Inr ip \<and> mat4_inverse view = Inr iv \<and>
    (case (ip, iv) of
       (Some inv_proj, Some inv_view) \<Rightarrow>
         (\<exists>near_eye far_eye near_world far_world.
            mat4_mul_vec4 inv_proj (2 * mx / viewport_w - 1, 1 - 2 * my / viewport_h, - 1, 1) = Inr near_eye
          \<and> mat4_mul_vec4 inv_proj (2 * mx / viewport_w - 1, 1 - 2 * my / viewport_h, 1, 1) = Inr far_eye
          \<and> mat4_mul_vec4 inv_view (persp_divide near_eye) = Inr near_world
          \<and> mat4_mul_vec4 inv_view (persp_divide far_eye) = Inr far_world
          \<and> (if \<bar>w_of near_eye\<bar> < 1 / 10 ^ 12 \<or> \<bar>w_of far_eye\<bar> < 1 / 10 ^ 12
              then unproject mx my viewport_w viewport_h proj view = Inr None
              else if square_overflows (sub3 (xyz_of far_world) (xyz_of near_world))
              then unproject mx my viewport_w viewport_h proj view = Inl OverflowError
              else if vec3_len (sub3 (xyz_of far_world) (xyz_of near_world)) < 1 / 10 ^ 12
              then unproject mx my viewport_w viewport_h proj view = Inr None
              else unproject mx my viewport_w viewport_h proj view =
                     Inr (Some (xyz_of near_world,
                                normalize3 (sub3 (xyz_of far_world) (xyz_of near_world))))
                 \<and> vec3_len (normalize3 (sub3 (xyz_of far_world) (xyz_of near_world))) = 1))
     | _ \<Rightarrow> unproject mx my viewport_w viewport_h proj view = Inr None)"
proof -
  obtain ip where ip: "mat4_inverse proj = Inr ip"
    using mat4_inverse_total [OF assms(3)] by blast
  obtain iv where iv: "mat4_inverse view = Inr iv"
    using mat4_inverse_total [OF assms(4)] by blast
  show ?thesis
  proof (cases ip)
    case None
    with ip iv assms show ?thesis by (simp add: unproject_def)
  next
    case ipS: (Some inv_proj)
    show ?thesis
    proof (cases iv)
      case None
      with ip iv ipS assms show ?thesis by (simp add: unproject_def)
    next
      case ivS: (Some inv_view)
      have lp: "length inv_proj = 16" using ip ipS by (simp add: mat4_inverse_length)
      have lv: "length inv_view = 16" using iv ivS by (simp add: mat4_inverse_length)
      obtain near_eye where ne:
        "mat4_mul_vec4 inv_proj (2 * mx / viewport_w - 1, 1 - 2 * my / viewport_h, - 1, 1) = Inr near_eye"
        using mat4_mul_vec4_total [OF lp] by blast
      obtain far_eye where fe:
        "mat4_mul_vec4 inv_proj (2 * mx / viewport_w - 1, 1 - 2 * my / viewport_h, 1, 1) = Inr far_eye"
        using mat4_mul_vec4_total [OF lp] by blast
      obtain near_world where nw: "mat4_mul_vec4 inv_view (persp_divide near_eye) = Inr near_world"
        using mat4_mul_vec4_total [OF lv] by blast
      obtain far_world where fw: "mat4_mul_vec4 inv_view (persp_divide far_eye) = Inr far_world"
        using mat4_mul_vec4_total [OF lv] by blast
      obtain nx ny nz nw' where nwe: "near_world = (nx, ny, nz, nw')" by (cases near_world) auto
      obtain fx fy fz fw' where fwe: "far_world = (fx, fy, fz, fw')" by (cases far_world) auto
      obtain e1 e2 e3 e4 where nee: "near_eye = (e1, e2, e3, e4)" by (cases near_eye) auto
      obtain g1 g2 g3 g4 where fee: "far_eye = (g1, g2, g3, g4)" by (cases far_eye) auto
      define dv where "dv = sub3 (xyz_of far_world) (xyz_of near_world)"
      have unit: "vec3_len (normalize3 dv) = 1" if "\<not> vec3_len dv < 1 / 10 ^ 12"
        using that by (intro vec3_len_normalize3) auto
      have res: "unproject mx my viewport_w viewport_h proj view =
          (if \<bar>w_of near_eye\<bar> < 1 / 10 ^ 12 \<or> \<bar>w_of far_eye\<bar> < 1 / 10 ^ 12 then Inr None
           else if square_overflows dv then Inl OverflowError
           else if vec3_len dv < 1 / 10 ^ 12 then Inr None
           else Inr (Some (xyz_of near_world, normalize3 dv)))"
        using assms(1,2) ip iv ipS ivS ne fe nw fw
        by (simp add: unproject_def Let_def nwe fwe nee fee dv_def w_of_def xyz_of_def sub3_def
            vec3_len_def normalize3_def float_square_def square_overflows_def)
      have "mat4_mul_vec4 inv_proj (2 * mx / viewport_w - 1, 1 - 2 * my / viewport_h, - 1, 1) = Inr near_eye
          \<and> mat4_mul_vec4 inv_proj (2 * mx / viewport_w - 1, 1 - 2 * my / viewport_h, 1, 1) = Inr far_eye
          \<and> mat4_mul_vec4 inv_view (persp_divide near_eye) = Inr near_world
          \<and> mat4_mul_vec4 inv_view (persp_divide far_eye) = Inr far_world
          \<and> (if \<bar>w_of near_eye\<bar> < 1 / 10 ^ 12 \<or> \<bar>w_of far_eye\<bar> < 1 / 10 ^ 12
              then unproject mx my viewport_w viewport_h proj view = Inr None
              else if square_overflows (sub3 (xyz_of far_world) (xyz_of near_world))
              then unproject mx my viewport_w viewport_h proj view = Inl OverflowError
              else if vec3_len (sub3 (xyz_of far_world) (xyz_of near_world)) < 1 / 10 ^ 12
              then unproject mx my viewport_w viewport_h proj view = Inr None
              else unproject mx my viewport_w viewport_h proj view =
                     Inr (Some (xyz_of near_world,
                                normalize3 (sub3 (xyz_of far_world) (xyz_of near_world))))
                 \<and> vec3_len (normalize3 (sub3 (xyz_of far_world) (xyz_of near_world))) = 1)"
        using ne fe nw fw unit unfolding res dv_def by simp
      then have "\<exists>near_eye far_eye near_world far_world.
            mat4_mul_vec4 inv_proj (2 * mx / viewport_w - 1, 1 - 2 * my / viewport_h, - 1, 1) = Inr near_eye
          \<and> mat4_mul_vec4 inv_proj (2 * mx / viewport_w - 1, 1 - 2 * my / viewport_h, 1, 1) = Inr far_eye
          \<and> mat4_mul_vec4 inv_view (persp_divide near_eye) = Inr near_world
          \<and> mat4_mul_vec4 inv_view (persp_divide far_eye) = Inr far_world
          \<and> (if \<bar>w_of near_eye\<bar> < 1 / 10 ^ 12 \<or> \<bar>w_of far_eye\<bar> < 1 / 10 ^ 12
              then unproject mx my viewport_w viewport_h proj view = Inr None
              else if square_overflows (sub3 (xyz_of far_world) (xyz_of near_world))
              then unproject mx my viewport_w viewport_h proj view = Inl OverflowError
              else if vec3_len (sub3 (xyz_of far_world) (xyz_of near_world)) < 1 / 10 ^ 12
              then unproject mx my viewport_w viewport_h proj view = Inr None
              else unproject mx my viewport_w viewport_h proj view =
                     Inr (Some (xyz_of near_world,
                                normalize3 (sub3 (xyz_of far_world) (xyz_of near_world))))
                 \<and> vec3_len (normalize3 (sub3 (xyz_of far_world) (xyz_of near_world))) = 1)"
        by blast
      with ip iv ipS ivS show ?thesis by simp
    qed
  qed
qed

text \<open>
  Apart from the two divisions by the viewport size and the three squares of
  \<open>unproject\<close> nothing in \<open>pick\<close> raises: on a viewport of nonzero width and height,
  matrices of sixteen entries and parts on which \<open>get_face_quads\<close> returns (all parts
  built by the constructor, lemma \<open>get_face_quads_init\<close>), \<open>pick\<close> returns a texel or
  no result, or raises \<^verbatim>\<open>OverflowError\<close>.
\<close>

lemma float_square_cases:
  "float_square x = Inr (x ^ 2) \<or> float_square x = Inl OverflowError"
  by (simp add: float_square_def)

lemma ray_quad_intersect_total:
  "length verts = 4 \<Longrightarrow> length tex = 4 \<Longrightarrow> \<exists>r. ray_quad_intersect org dir verts tex = Inr r"
  by (simp add: ray_quad_intersect_def split: option.splits)

lemma scan_quads_total:
  "\<forall>q\<in>set quads. length (fst (snd q)) = 4 \<and> length (snd (snd q)) = 4 \<Longrightarrow>
   \<exists>r. scan_quads org dir quads st = Inr r"
proof (induction quads arbitrary: st)
  case Nil
  then show ?case by simp
next
  case (Cons q quads)
  then obtain hit where "ray_quad_intersect org dir (fst (snd q)) (snd (snd q)) = Inr hit"
    using ray_quad_intersect_total [of "fst (snd q)" "snd (snd q)" org dir] by auto
  with Cons show ?case by simp
qed

lemma scan_parts_total:
  "\<forall>p\<in>set parts. \<exists>quads. get_face_quads p = Inr quads \<Longrightarrow>
   \<exists>r. scan_parts org dir parts st = Inr r"
proof (induction parts arbitrary: st)
  case Nil
  then show ?case by simp
next
  case (Cons p parts)
  then obtain quads where "get_face_quads p = Inr quads" by auto
  from get_transformed_quads_lengths [OF this] obtain tq
    where tq: "get_transformed_quads p = Inr tq"
      and len: "\<forall>q\<in>set tq. length (fst (snd q)) = 4 \<and> length (snd (snd q)) = 4"
    by blast
  from scan_quads_total [OF len] obtain st' where "scan_quads org dir tq st = Inr st'" by blast
  with tq Cons show ?case by simp
qed

lemma unproject_total:
  assumes "viewport_w \<noteq> 0" and "viewport_h \<noteq> 0" and "length proj = 16" and "length view = 16"
  shows "(\<exists>r. unproject mx my viewport_w viewport_h proj view = Inr r)
         \<or> unproject mx my viewport_w viewport_h proj view = Inl OverflowError"
proof -
  obtain ip where ip: "mat4_inverse proj = Inr ip"
    using mat4_inverse_total [OF assms(3)] by blast
  obtain iv where iv: "mat4_inverse view = Inr iv"
    using mat4_inverse_total [OF assms(4)] by blast
  show ?thesis
  proof (cases "ip = None \<or> iv = None")
    case True
    with ip iv assms show ?thesis by (auto simp: unproject_def Let_def split: option.splits)
  next
    case False
    then obtain inv_proj inv_view where s: "ip = Some inv_proj" "iv = Some inv_view" by auto
    have lp: "length inv_proj = 16" using ip s by (simp add: mat4_inverse_length)
    have lv: "length inv_view = 16" using iv s by (simp add: mat4_inverse_length)
    show ?thesis
      using assms(1,2) ip iv s lp lv
      by (simp add: unproject_def Let_def mat4_mul_vec4_def persp_divide_def float_square_def
          split: prod.splits)
  qed
qed

lemma pick_total:
  assumes "viewport_w \<noteq> 0" and "viewport_h \<noteq> 0" and "length proj = 16" and "length view = 16"
    and "\<forall>p\<in>set (get_all_parts model). \<exists>quads. get_face_quads p = Inr quads"
  shows "(\<exists>r. pick mx my viewport_w viewport_h proj view model overlay_visible = Inr r)
         \<or> pick mx my viewport_w viewport_h proj view model overlay_visible = Inl OverflowError"
proof -
  from unproject_total [OF assms(1-4)]
  consider ray where "unproject mx my viewport_w viewport_h proj view = Inr ray"
    | "unproject mx my viewport_w viewport_h proj view = Inl OverflowError"
    by blast
  then show ?thesis
  proof cases
    case 2
    then show ?thesis by (simp add: pick_def)
  next
    case ray: 1
    show ?thesis
    proof (cases ray)
      case None
      with ray show ?thesis by (simp add: pick_def)
    next
      case (Some od)
      obtain org dir where od: "od = (org, dir)" by (cases od) auto
      have "\<forall>p\<in>set (if overlay_visible then get_all_parts model else base_parts model).
              \<exists>quads. get_face_quads p = Inr quads"
        using assms(5) by (auto simp: get_all_parts_def)
      from scan_parts_total [OF this] obtain st
        where "closest_hit org dir model overlay_visible = Inr st"
        unfolding closest_hit_def Let_def by blast
      with ray Some od show ?thesis by (cases "snd st") (simp_all add: pick_def)
    qed
  qed
qed

text \<open>
  The loops of \<open>pick\<close> fold \<open>record_hit\<close> over the hits in order.  They end with no
  hit when there is none, and otherwise with a hit whose \<open>t\<close> is the least of all.
\<close>

lemma update_best_None: "update_best st None = st"
  by (simp add: update_best_def)

lemma record_hit_value:
  "record_hit (None, buv) (t, u, v) = (Some t, Some (u, v))"
  "record_hit (Some bt, buv) (t, u, v) = (if t < bt then (Some t, Some (u, v)) else (Some bt, buv))"
  by (simp_all add: record_hit_def update_best_def)

lemma scan_quads_foldl:
  "scan_quads org dir quads st = Inr st' \<Longrightarrow> st' = foldl record_hit st (hits_of_quads org dir quads)"
proof (induction quads arbitrary: st)
  case Nil
  then show ?case by simp
next
  case (Cons q quads)
  show ?case
  proof (cases "ray_quad_intersect org dir (fst (snd q)) (snd (snd q))")
    case (Inl e)
    with Cons.prems show ?thesis by simp
  next
    case (Inr hit)
    show ?thesis
    proof (cases hit)
      case None
      with Inr Cons.prems have "scan_quads org dir quads st = Inr st'"
        by (simp add: update_best_None)
      from Cons.IH [OF this] Inr None show ?thesis by simp
    next
      case (Some h)
      with Inr Cons.prems have "scan_quads org dir quads (record_hit st h) = Inr st'"
        by (simp add: record_hit_def)
      from Cons.IH [OF this] Inr Some show ?thesis by simp
    qed
  qed
qed

lemma scan_parts_foldl:
  "scan_parts org dir parts st = Inr st' \<Longrightarrow> st' = foldl record_hit st (hits_of_parts org dir parts)"
proof (induction parts arbitrary: st)
  case Nil
  then show ?case by simp
next
  case (Cons p parts)
  from Cons.prems obtain quads st1
    where q: "get_transformed_quads p = Inr quads"
      and s1: "scan_quads org dir quads st = Inr st1"
      and s2: "scan_parts org dir parts st1 = Inr st'"
    by (auto split: sum.splits)
  from scan_quads_foldl [OF s1] Cons.IH [OF s2] q show ?case by simp
qed

lemma foldl_record_hit_Some:
  "foldl record_hit (Some t, Some (u, v)) hits = (bt, buv) \<Longrightarrow>
   \<exists>t' u' v'. bt = Some t' \<and> buv = Some (u', v')
      \<and> ((t', u', v') = (t, u, v) \<or> (t', u', v') \<in> set hits)
      \<and> t' \<le> t \<and> (\<forall>h\<in>set hits. t' \<le> fst h)"
proof (induction hits arbitrary: t u v)
  case Nil
  then show ?case by simp
next
  case (Cons h hits)
  obtain ht hu hv where h: "h = (ht, hu, hv)" by (cases h) auto
  show ?case
  proof (cases "ht < t")
    case True
    with Cons.prems h have "foldl record_hit (Some ht, Some (hu, hv)) hits = (bt, buv)"
      by (simp add: record_hit_value)
    from Cons.IH [OF this] True h show ?thesis by fastforce
  next
    case False
    with Cons.prems h have "foldl record_hit (Some t, Some (u, v)) hits = (bt, buv)"
      by (simp add: record_hit_value)
    from Cons.IH [OF this] False h show ?thesis by fastforce
  qed
qed

lemma foldl_record_hit_None:
  "foldl record_hit (None, None) hits = (bt, buv) \<Longrightarrow>
   (hits = [] \<and> bt = None \<and> buv = None)
   \<or> (\<exists>t u v. bt = Some t \<and> buv = Some (u, v) \<and> (t, u, v) \<in> set hits \<and> (\<forall>h\<in>set hits. t \<le> fst h))"
proof (cases hits)
  case Nil
  assume "foldl record_hit (None, None) hits = (bt, buv)"
  with Nil show ?thesis by simp
next
  case (Cons h hs)
  assume a: "foldl record_hit (None, None) hits = (bt, buv)"
  obtain ht hu hv where h: "h = (ht, hu, hv)" by (cases h) auto
  from a Cons h have "foldl record_hit (Some ht, Some (hu, hv)) hs = (bt, buv)"
    by (simp add: record_hit_value)
  from foldl_record_hit_Some [OF this] Cons h show ?thesis by fastforce
qed

lemma closest_hit_minimal:
  assumes "closest_hit org dir model overlay_visible = Inr (bt, buv)"
  defines "hits \<equiv> hits_of_parts org dir (if overlay_visible then get_all_parts model else base_parts model)"
  shows "(hits = [] \<and> bt = None \<and> buv = None)
   \<or> (\<exists>t u v. bt = Some t \<and> buv = Some (u, v) \<and> (t, u, v) \<in> set hits \<and> (\<forall>h\<in>set hits. t \<le> fst h))"
proof -
  from assms(1) have "(bt, buv) = foldl record_hit (None, None) hits"
    unfolding closest_hit_def Let_def hits_def by (rule scan_parts_foldl)
  then show ?thesis using foldl_record_hit_None [of hits bt buv] by simp
qed

text \<open>
  Truncation and floor differ on negative numbers only, and the clamp sends both to 0
  there.
\<close>

lemma clamp_py_int: "max 0 (min 63 (py_int x)) = max 0 (min 63 \<lfloor>x\<rfloor>)"
proof (cases "x < 0")
  case True
  then have "\<lceil>x\<rceil> \<le> 0" by (simp add: ceiling_le_zero)
  moreover from True have "\<lfloor>x\<rfloor> \<le> 0" by linarith
  ultimately show ?thesis using True by (simp add: py_int_def)
next
  case False
  then show ?thesis by (simp add: py_int_def)
qed

lemma texel_of_uv_value:
  "texel_of_uv (tex_u, tex_v) = (max 0 (min 63 \<lfloor>tex_u * 64\<rfloor>), max 0 (min 63 \<lfloor>tex_v * 64\<rfloor>))"
  by (simp add: texel_of_uv_def TEX_W_def TEX_H_def Let_def clamp_py_int)

text \<open>
  A ray through identity matrices on a 4 x 4 viewport at (2, 1), cast at the classic
  model: it starts inside the right leg and leaves it through its back face at
  \<open>t = 3\<close>.
\<close>

lemma unproject_identity_example:
  "unproject 2 1 4 4 identity identity = Inr (Some ((0, 1 / 2, - 1), (0, 0, 1)))"
  by (simp add: unproject_def mat4_inverse_identity Let_def)
     (simp add: identity_def mat4_mul_vec4_def persp_divide_def Let_def float_square_def
        DBL_OVERFLOW_def)

lemma closest_hit_steve_example:
  "closest_hit (0, 1 / 2, - 1) (0, 0, 1) (projr SteveModel) True = Inr (Some 3, Some (159 / 640, 63 / 128))"
  by (simp add: SteveModel_def BoxPart_init_value closest_hit_def get_all_parts_def
      get_transformed_quads_def get_face_quads_def dict_get_atlas Let_def
      ray_quad_intersect_def ray_triangle_intersect_def EPSILON_def update_best_def)

section \<open>The claims\<close>

text \<open>
  C3.  For every UV origin \<open>(u0, v0)\<close> and box dimensions \<open>(w, h, d)\<close>, \<open>box_uvs\<close> on
  the atlas of \<open>TEX_W\<close> by \<open>TEX_H\<close> pixels (its default arguments) returns, under the
  six face names, the rectangles right = (u0, v0+d, d, h), front = (u0+d, v0+d, w, h),
  left = (u0+d+w, v0+d, d, h), back = (u0+d+w+d, v0+d, w, h), top = (u0+d, v0, w, d),
  bottom = (u0+d+w, v0, w, d), each one, given as (x, y, width, height), turned into
  (x / width of the atlas, y / height of the atlas, (x + width) / width of the atlas,
  (y + height) / height of the atlas); and the same on every atlas of nonzero width
  and height.
\<close>

theorem box_uvs_rectangles:
  "box_uvs u0 v0 w h d (real_of_int TEX_W) (real_of_int TEX_H) =
     Inr (map (\<lambda>(face, r). (face, spec_normalize (real_of_int TEX_W) (real_of_int TEX_H) r))
            (spec_pixel_rects u0 v0 w h d))
   \<and> (tex_w \<noteq> 0 \<longrightarrow> tex_h \<noteq> 0 \<longrightarrow>
        box_uvs u0 v0 w h d tex_w tex_h =
          Inr (map (\<lambda>(face, r). (face, spec_normalize tex_w tex_h r)) (spec_pixel_rects u0 v0 w h d)))"
  by (simp add: box_uvs_def norm_rect_def spec_pixel_rects_def spec_normalize_def TEX_W_def TEX_H_def
      add.assoc)

text \<open>
  The body box of \<^verbatim>\<open>test_body_uvs_front\<close> and \<^verbatim>\<open>test_body_uvs_right\<close>: UV origin
  (16, 16), size 8 x 12 x 4, on the 64 x 64 atlas.
\<close>

theorem box_uvs_rectangles_witness:
  "(64::real) \<noteq> 0 \<and>
   box_uvs 16 16 8 12 4 64 64 =
     Inr [(''right'',  (16 / 64, 20 / 64, 20 / 64, 32 / 64)),
          (''front'',  (20 / 64, 20 / 64, 28 / 64, 32 / 64)),
          (''left'',   (28 / 64, 20 / 64, 32 / 64, 32 / 64)),
          (''back'',   (32 / 64, 20 / 64, 40 / 64, 32 / 64)),
          (''top'',    (20 / 64, 16 / 64, 28 / 64, 20 / 64)),
          (''bottom'', (28 / 64, 16 / 64, 36 / 64, 20 / 64))]"
proof -
  have nz: "(64::real) \<noteq> 0" by simp
  from box_uvs_rectangles [of 16 16 8 12 4 64 64] nz show ?thesis
    by (simp add: spec_pixel_rects_def spec_normalize_def)
qed

text \<open>
  C10.  The UV rectangles stored by the constructor are those of \<open>box_uvs\<close> on the
  width, height and depth as passed in, before inflation: two parts built with the same
  UV origin and size have the same rectangles whatever their inflate values (and names,
  origins, pivots, rotations), while the stored origin is the given one minus the
  inflate and the stored size the given one plus twice the inflate.
\<close>

theorem inflate_keeps_uvs:
  "\<exists>p q m. BoxPart_init n1 (ox1, oy1, oz1) (w, h, d) uvo i1 pv1 r1 = Inr p
         \<and> BoxPart_init n2 (ox2, oy2, oz2) (w, h, d) uvo i2 pv2 r2 = Inr q
         \<and> box_uvs (fst uvo) (snd uvo) w h d (real_of_int TEX_W) (real_of_int TEX_H) = Inr m
         \<and> uvs p = m \<and> uvs q = m
         \<and> origin p = (ox1 - i1, oy1 - i1, oz1 - i1)
         \<and> size_part p = (w + 2 * i1, h + 2 * i1, d + 2 * i1)"
  by (simp add: BoxPart_init_def TEX_W_def TEX_H_def box_uvs_value)

text \<open>
  C8.  For every part, whatever its rotation, \<open>get_transformed_quads\<close> returns the face
  names and the UV lists of \<open>get_face_quads\<close>, in the same order (and raises exactly
  when \<open>get_face_quads\<close> does); and when the rotation is (0, 0, 0) it returns the very
  quads of \<open>get_face_quads\<close>, vertices included.
\<close>

theorem transformed_quads_keep_uvs:
  "map_sum id (map (\<lambda>(face_name, verts, tex). (face_name, tex))) (get_transformed_quads part)
     = map_sum id (map (\<lambda>(face_name, verts, tex). (face_name, tex))) (get_face_quads part)
   \<and> (rotation part = (0, 0, 0) \<longrightarrow> get_transformed_quads part = get_face_quads part)"
proof (cases "get_face_quads part")
  case (Inl e)
  then show ?thesis by (simp add: get_transformed_quads_def)
next
  case (Inr quads)
  obtain rx ry rz where r: "rotation part = (rx, ry, rz)" by (cases "rotation part") auto
  have "map (\<lambda>(face_name, verts, tex). (face_name, tex))
          (map (\<lambda>(face_name, verts, tex). (face_name, map f verts, tex)) quads)
        = map (\<lambda>(face_name, verts, tex). (face_name, tex)) quads" for f :: "vec3 \<Rightarrow> vec3"
    by (induction quads) (auto split: prod.splits)
  with Inr r show ?thesis by (simp add: get_transformed_quads_def)
qed

text \<open>
  The unturned part: rotation (0, 0, 0), quads unchanged.  The turned part: the six
  face names and the UV lists of the unturned quads.
\<close>

theorem transformed_quads_keep_uvs_witness:
  "rotation unturned_part = (0, 0, 0)
   \<and> get_transformed_quads unturned_part = get_face_quads unturned_part
   \<and> map_sum id (map (\<lambda>(face_name, verts, tex). face_name)) (get_transformed_quads unturned_part)
       = Inr [''front'', ''back'', ''right'', ''left'', ''top'', ''bottom'']
   \<and> rotation turned_part = (45, 30, 15)
   \<and> map_sum id (map (\<lambda>(face_name, verts, tex). (face_name, tex))) (get_transformed_quads turned_part)
       = map_sum id (map (\<lambda>(face_name, verts, tex). (face_name, tex))) (get_face_quads unturned_part)"
proof -
  have r: "rotation unturned_part = (0, 0, 0)" by (simp add: unturned_part_def)
  have f: "map_sum id (map (\<lambda>(face_name, verts, tex). face_name)) (get_face_quads unturned_part)
       = Inr [''front'', ''back'', ''right'', ''left'', ''top'', ''bottom'']"
    by (simp add: unturned_part_def get_face_quads_def dict_get_atlas Let_def)
  have t: "rotation turned_part = (45, 30, 15)" by (simp add: turned_part_def)
  have g: "get_face_quads turned_part = get_face_quads unturned_part"
    by (simp add: turned_part_def get_face_quads_def)
  from transformed_quads_keep_uvs [of unturned_part] r
  have a: "get_transformed_quads unturned_part = get_face_quads unturned_part"
    by simp
  from f have b: "map_sum id (map (\<lambda>(face_name, verts, tex). face_name)) (get_transformed_quads unturned_part)
       = Inr [''front'', ''back'', ''right'', ''left'', ''top'', ''bottom'']"
    unfolding a .
  from transformed_quads_keep_uvs [of turned_part]
  have c: "map_sum id (map (\<lambda>(face_name, verts, tex). (face_name, tex))) (get_transformed_quads turned_part)
       = map_sum id (map (\<lambda>(face_name, verts, tex). (face_name, tex))) (get_face_quads unturned_part)"
    unfolding g by (rule conjunct1)
  from r a b t c show ?thesis by blast
qed

text \<open>
  C4, as the code has it.  \<open>set_pose\<close> changes nothing but rotations.  With pose index 1
  every part, base and overlay, ends with the rotation of the first group its name
  matches, the groups taken in the order rightArm/rightSleeve (30, 0, 0),
  leftArm/leftSleeve (-30, 0, 0), rightLeg/rightPants (-30, 0, 0), leftLeg/leftPants
  (30, 0, 0), and with (0, 0, 0) when it matches none; with a pose index other than 1
  and 2 every part ends with (0, 0, 0).  The rotations before the call play no role.
\<close>

theorem set_pose_rotations:
  "get_all_parts (set_pose model 1) =
     map (\<lambda>p. p\<lparr>rotation :=
        (if str_contains ''rightArm'' (name p) \<or> str_contains ''rightSleeve'' (name p) then (30, 0, 0)
         else if str_contains ''leftArm'' (name p) \<or> str_contains ''leftSleeve'' (name p) then (- 30, 0, 0)
         else if str_contains ''rightLeg'' (name p) \<or> str_contains ''rightPants'' (name p) then (- 30, 0, 0)
         else if str_contains ''leftLeg'' (name p) \<or> str_contains ''leftPants'' (name p) then (30, 0, 0)
         else (0, 0, 0))\<rparr>) (get_all_parts model)
   \<and> (pose_index \<noteq> 1 \<and> pose_index \<noteq> 2 \<longrightarrow>
        get_all_parts (set_pose model pose_index) =
          map (\<lambda>p. p\<lparr>rotation := (0, 0, 0)\<rparr>) (get_all_parts model))"
  by (simp add: set_pose_def apply_pose_def get_all_parts_map_parts pose_walking_reset comp_def)
     (simp add: pose_reset_def)

text \<open>A model left in the arms-out pose: pose 1 and pose 0 both start from zero.\<close>

theorem set_pose_rotations_witness:
  "(0::int) \<noteq> 1 \<and> (0::int) \<noteq> 2
   \<and> map rotation (get_all_parts posed_model) = [(0, 0, 90), (0, 0, 0), (0, 0, - 90)]
   \<and> map rotation (get_all_parts (set_pose posed_model 1)) = [(30, 0, 0), (0, 0, 0), (- 30, 0, 0)]
   \<and> map rotation (get_all_parts (set_pose posed_model 0)) = [(0, 0, 0), (0, 0, 0), (0, 0, 0)]"
  using set_pose_rotations [of posed_model 0]
  by (simp add: posed_model_def get_all_parts_def)

text \<open>
  C4 as stated fails where a name matches two groups: the part named
  \<^verbatim>\<open>rightArmleftArm\<close> contains \<^verbatim>\<open>leftArm\<close>, and pose 1 leaves it with (30, 0, 0), the
  rotation of the first branch of the \<^verbatim>\<open>if\<close>/\<^verbatim>\<open>elif\<close> chain, not with (-30, 0, 0).
\<close>

theorem set_pose_first_match_counterexample:
  "str_contains ''leftArm'' (name (hd (get_all_parts (set_pose both_arms_model 1))))
   \<and> rotation (hd (get_all_parts (set_pose both_arms_model 1))) = (30, 0, 0)
   \<and> rotation (hd (get_all_parts (set_pose both_arms_model 1))) \<noteq> (- 30, 0, 0)"
  by (simp add: both_arms_model_def set_pose_def apply_pose_def map_parts_def get_all_parts_def
      pose_walking_def pose_reset_def)

text \<open>
  C7, as the code has it.  Both constructors succeed.  The two variants have the same
  part names and the same UV origins in the same order, and their parts other than the
  four arm parts are equal in every field.  The arm parts differ in width (4 against 3,
  plus twice the inflate on the overlay) and in the height of the pivot (22 against
  21.5); the right arm and the right sleeve differ in their origin as well, which
  starts at x = -8 in the classic and at x = -7 in the slim variant (less the
  inflate), so that both arms end at the body.
\<close>

theorem variants_compared:
  "\<exists>s a. SteveModel = Inr s \<and> AlexModel = Inr a
     \<and> map name (get_all_parts s) = map name (get_all_parts a)
     \<and> map uv_origin (get_all_parts s) = map uv_origin (get_all_parts a)
     \<and> filter (\<lambda>p. \<not> is_arm_part p) (get_all_parts s) = filter (\<lambda>p. \<not> is_arm_part p) (get_all_parts a)
     \<and> map (\<lambda>p. (name p, origin p, size_part p, pivot p)) (filter is_arm_part (get_all_parts s)) =
          [(''rightArm'', (- 8, 12, - 2), (4, 12, 4), (- 5, 22, 0)),
           (''leftArm'', (4, 12, - 2), (4, 12, 4), (5, 22, 0)),
           (''rightSleeve'', (- 8 - 1 / 2, 12 - 1 / 2, - 2 - 1 / 2), (4 + 1, 12 + 1, 4 + 1), (- 5, 22, 0)),
           (''leftSleeve'', (4 - 1 / 2, 12 - 1 / 2, - 2 - 1 / 2), (4 + 1, 12 + 1, 4 + 1), (5, 22, 0))]
     \<and> map (\<lambda>p. (name p, origin p, size_part p, pivot p)) (filter is_arm_part (get_all_parts a)) =
          [(''rightArm'', (- 7, 12, - 2), (3, 12, 4), (- 5, 22 - 1 / 2, 0)),
           (''leftArm'', (4, 12, - 2), (3, 12, 4), (5, 22 - 1 / 2, 0)),
           (''rightSleeve'', (- 7 - 1 / 2, 12 - 1 / 2, - 2 - 1 / 2), (3 + 1, 12 + 1, 4 + 1), (- 5, 22 - 1 / 2, 0)),
           (''leftSleeve'', (4 - 1 / 2, 12 - 1 / 2, - 2 - 1 / 2), (3 + 1, 12 + 1, 4 + 1), (5, 22 - 1 / 2, 0))]"
  by (simp add: SteveModel_def AlexModel_def BoxPart_init_value get_all_parts_def is_arm_part_def)

text \<open>
  C7 as stated fails: the part origins of the two variants are not identical.  Part 2
  of both, \<^verbatim>\<open>rightArm\<close>, has origin (-8, 12, -2) in the classic and (-7, 12, -2) in the
  slim variant.
\<close>

theorem variants_origin_counterexample:
  "name (get_all_parts (projr SteveModel) ! 2) = ''rightArm''
   \<and> name (get_all_parts (projr AlexModel) ! 2) = ''rightArm''
   \<and> origin (get_all_parts (projr SteveModel) ! 2) = (- 8, 12, - 2)
   \<and> origin (get_all_parts (projr AlexModel) ! 2) = (- 7, 12, - 2)
   \<and> map origin (get_all_parts (projr SteveModel)) \<noteq> map origin (get_all_parts (projr AlexModel))"
  by (simp add: SteveModel_def AlexModel_def BoxPart_init_value get_all_parts_def)

text \<open>
  C2 at the box of \<^verbatim>\<open>test_six_face_quads\<close>, origin (0, 0, 0) and size (2, 3, 4), whose
  centre is (1, 1.5, 2).  \<open>get_face_quads\<close> returns the six faces in the order front,
  back, right, left, top, bottom.  For each face the list gives its first vertex, its
  normal and \<open>outward_turn\<close>: every normal points from the face towards the centre of
  the box (front lies in the plane z = 0 and has normal +z, and so on), so every face
  is clockwise when seen from outside the box, where the docstring of
  \<^verbatim>\<open>get_face_quads\<close> says counter-clockwise.
\<close>

theorem face_quads_wind_clockwise:
  "\<exists>p quads. BoxPart_init ''test'' (0, 0, 0) (2, 3, 4) (0, 0) 0 None None = Inr p
     \<and> get_face_quads p = Inr quads
     \<and> box_centre p = (1, 3 / 2, 2)
     \<and> map (\<lambda>(face_name, verts, tex). (face_name, hd verts, face_normal verts, outward_turn p verts)) quads =
         [(''front'', (0, 0, 0), (0, 0, 6), - 12),
          (''back'', (2, 0, 4), (0, 0, - 6), - 12),
          (''right'', (0, 0, 4), (12, 0, 0), - 12),
          (''left'', (2, 0, 0), (- 12, 0, 0), - 12),
          (''top'', (0, 3, 0), (0, - 8, 0), - 12),
          (''bottom'', (0, 0, 4), (0, 8, 0), - 12)]"
  by (simp add: BoxPart_init_value get_face_quads_def dict_get_atlas Let_def face_normal_def
      outward_turn_def box_centre_def sub3_def dot3_def)

text \<open>
  C9 at a viewport of width zero, or of height zero: \<open>pick\<close> and \<open>unproject\<close> raise
  \<^verbatim>\<open>ZeroDivisionError\<close>, whatever the other arguments, where the claim has them return
  a value or no result.  The only other raise of \<open>pick\<close> on well-formed arguments is the
  \<^verbatim>\<open>OverflowError\<close> of the squares in \<open>unproject\<close> (lemma \<open>pick_total\<close>).
\<close>

theorem pick_zero_viewport_raises:
  "pick mx my 0 viewport_h proj view model overlay_visible = Inl ZeroDivisionError
   \<and> pick mx my 600 0 proj view model overlay_visible = Inl ZeroDivisionError
   \<and> unproject mx my 0 viewport_h proj view = Inl ZeroDivisionError"
  by (simp add: pick_def unproject_def)

text \<open>
  C5 where \<open>unproject\<close> neither returns no result nor a ray.  On a viewport of width
  zero, or of height zero, it raises \<^verbatim>\<open>ZeroDivisionError\<close> though both matrices are
  invertible.  On a 600 x 700 viewport with the identity as projection and a view that
  scales x by \<open>10 ^ 160\<close> and z by \<open>10 ^ (-160)\<close>, both inversions succeed, both \<open>w\<close> are 1
  and the direction has length \<open>2 * 10 ^ 160\<close>, and it raises \<^verbatim>\<open>OverflowError\<close>.
\<close>

theorem unproject_raises:
  "mat4_inverse identity = Inr (Some identity)
   \<and> unproject 300 350 0 700 identity identity = Inl ZeroDivisionError
   \<and> unproject 300 350 600 0 identity identity = Inl ZeroDivisionError
   \<and> (\<exists>inv_view. mat4_inverse stretched_view = Inr (Some inv_view))
   \<and> unproject 300 350 600 700 identity stretched_view = Inl OverflowError"
proof -
  have i: "mat4_inverse stretched_view = Inr (Some stretched_view_inv)"
    by (simp add: mat4_inverse_def mat4_det_def cofactors_def Let_def stretched_view_def
        stretched_view_inv_def)
  have "unproject 300 350 600 700 identity stretched_view = Inl OverflowError"
    by (simp add: unproject_def mat4_inverse_identity i Let_def)
       (simp add: identity_def stretched_view_inv_def mat4_mul_vec4_def persp_divide_def Let_def
          float_square_def DBL_OVERFLOW_def)
  with i show ?thesis by (simp add: mat4_inverse_identity unproject_def)
qed

text \<open>
  C1.  When the ray of \<open>unproject\<close> has a winning hit with texture coordinates
  \<open>(tex_u, tex_v)\<close> (the closest of the hits, lemma \<open>closest_hit_minimal\<close>), \<open>pick\<close>
  returns the floors of \<open>tex_u * 64\<close> and \<open>tex_v * 64\<close>, each clamped into 0..63.  Whenever \<open>pick\<close> returns a texel \<open>(px, py)\<close>, it comes from such
  a hit in this way, with 64 the width and the height of the texture, and
  \<open>0 \<le> px \<le> 63\<close> and \<open>0 \<le> py \<le> 63\<close>.
\<close>

theorem pick_texel:
  "(unproject mx my viewport_w viewport_h proj view = Inr (Some (org, dir)) \<longrightarrow>
    closest_hit org dir model overlay_visible = Inr (best_t, Some (tex_u, tex_v)) \<longrightarrow>
      pick mx my viewport_w viewport_h proj view model overlay_visible =
        Inr (Some (max 0 (min 63 \<lfloor>tex_u * 64\<rfloor>), max 0 (min 63 \<lfloor>tex_v * 64\<rfloor>))))
   \<and> (pick mx my viewport_w viewport_h proj view model overlay_visible = Inr (Some (px, py)) \<longrightarrow>
        0 \<le> px \<and> px \<le> 63 \<and> 0 \<le> py \<and> py \<le> 63
        \<and> (\<exists>org dir best_t tex_u tex_v.
              unproject mx my viewport_w viewport_h proj view = Inr (Some (org, dir))
            \<and> closest_hit org dir model overlay_visible = Inr (best_t, Some (tex_u, tex_v))
            \<and> px = max 0 (min (TEX_W - 1) \<lfloor>tex_u * real_of_int TEX_W\<rfloor>)
            \<and> py = max 0 (min (TEX_H - 1) \<lfloor>tex_v * real_of_int TEX_H\<rfloor>)))"
proof -
  have first: "pick mx my viewport_w viewport_h proj view model overlay_visible =
        Inr (Some (max 0 (min 63 \<lfloor>tex_u * 64\<rfloor>), max 0 (min 63 \<lfloor>tex_v * 64\<rfloor>)))"
    if "unproject mx my viewport_w viewport_h proj view = Inr (Some (org, dir))"
      and "closest_hit org dir model overlay_visible = Inr (best_t, Some (tex_u, tex_v))"
    using that by (simp add: pick_def texel_of_uv_value)
  have second: "0 \<le> px \<and> px \<le> 63 \<and> 0 \<le> py \<and> py \<le> 63
        \<and> (\<exists>org dir best_t tex_u tex_v.
              unproject mx my viewport_w viewport_h proj view = Inr (Some (org, dir))
            \<and> closest_hit org dir model overlay_visible = Inr (best_t, Some (tex_u, tex_v))
            \<and> px = max 0 (min (TEX_W - 1) \<lfloor>tex_u * real_of_int TEX_W\<rfloor>)
            \<and> py = max 0 (min (TEX_H - 1) \<lfloor>tex_v * real_of_int TEX_H\<rfloor>))"
    if p: "pick mx my viewport_w viewport_h proj view model overlay_visible = Inr (Some (px, py))"
  proof -
    from p obtain org' dir'
      where u: "unproject mx my viewport_w viewport_h proj view = Inr (Some (org', dir'))"
      by (auto simp: pick_def bind_err_def split: sum.splits option.splits)
    with p obtain bt tu tv
      where c: "closest_hit org' dir' model overlay_visible = Inr (bt, Some (tu, tv))"
      by (auto simp: pick_def bind_err_def split: sum.splits option.splits)
    from p u c have px: "px = max 0 (min 63 \<lfloor>tu * 64\<rfloor>)" and py: "py = max 0 (min 63 \<lfloor>tv * 64\<rfloor>)"
      by (simp_all add: pick_def texel_of_uv_value)
    from px py have "0 \<le> px \<and> px \<le> 63 \<and> 0 \<le> py \<and> py \<le> 63" by simp
    moreover from px py have "px = max 0 (min (TEX_W - 1) \<lfloor>tu * real_of_int TEX_W\<rfloor>)"
      and "py = max 0 (min (TEX_H - 1) \<lfloor>tv * real_of_int TEX_H\<rfloor>)"
      by (simp_all add: TEX_W_def TEX_H_def)
    ultimately show ?thesis using u c by blast
  qed
  from first second show ?thesis by blast
qed

text \<open>The ray of the example above on the classic model: texel (15, 31).\<close>

theorem pick_texel_witness:
  "unproject 2 1 4 4 identity identity = Inr (Some ((0, 1 / 2, - 1), (0, 0, 1)))
   \<and> closest_hit (0, 1 / 2, - 1) (0, 0, 1) (projr SteveModel) True = Inr (Some 3, Some (159 / 640, 63 / 128))
   \<and> pick 2 1 4 4 identity identity (projr SteveModel) True = Inr (Some (15, 31))
   \<and> (0::int) \<le> 15 \<and> (15::int) \<le> 63 \<and> (0::int) \<le> 31 \<and> (31::int) \<le> 63"
proof -
  note u = unproject_identity_example and c = closest_hit_steve_example
  from pick_texel [of 2 1 4 4 identity identity "(0, 1 / 2, - 1)" "(0, 0, 1)" "projr SteveModel" True
      "Some 3" "159 / 640" "63 / 128"] u c
  have "pick 2 1 4 4 identity identity (projr SteveModel) True = Inr (Some (15, 31))"
    by simp
  with u c show ?thesis by simp
qed

end
